theory Spec2Isabelle
  imports Complex_Main "HOL-Library.Log_Nat"
begin

section \<open>Python values, exceptions and binary64 arithmetic\<close>

text \<open>
  The simulator is a Python script: counts are unbounded Python integers, the configured
  defect rates are Python floats (IEEE 754 binary64), and a failing operation raises an
  exception. An exception is a value of \<open>py_error\<close>; a computation that may raise
  returns \<open>py_error + 'a\<close>, with \<open>Inl\<close> for the exception.

  \<open>NonNumericValue\<close> stands for the exception raised when the metric block meets a text
  where it needs a number: \<open>int()\<close> of the text raises ValueError unless the text parses
  as an integer, and the quotient of the two values raises TypeError in any case; the
  model records that the block raises and does not track which of the exceptions it is.
\<close>

datatype py_error =
    OverflowError | ValueError | ZeroDivisionError | KeyError | TypeError | NonNumericValue

definition bind_err :: "py_error + 'a \<Rightarrow> ('a \<Rightarrow> py_error + 'b) \<Rightarrow> py_error + 'b" where
  "bind_err m f = (case m of Inl e \<Rightarrow> Inl e | Inr x \<Rightarrow> f x)"

text \<open>
  A float is either finite, with its exact rational value, or an infinity, or a NaN. The
  sign of an infinity or of a zero is not tracked: \<open>int()\<close> fails on both infinities
  alike and maps both zeros to 0, and the one float the program shows is a rate
  computed from two totals.
\<close>

datatype py_float = Finite rat | Infinite | NaN

text \<open>\<open>ilog2 q\<close> is the integer \<open>k\<close> with \<open>2\<^sup>k \<le> q < 2\<^sup>k\<^sup>+\<^sup>1\<close>, for a positive \<open>q\<close>.\<close>

definition ilog2 :: "rat \<Rightarrow> int" where
  "ilog2 q = (let (a, b) = quotient_of q;
                  d = int (floorlog 2 (nat a)) - int (floorlog 2 (nat b))
              in if 2 powi d \<le> q then d else d - 1)"

definition round_half_even :: "rat \<Rightarrow> int" where
  "round_half_even q =
     (let f = \<lfloor>q\<rfloor>; r = q - of_int f
      in if r < 1 / 2 then f
         else if 1 / 2 < r then f + 1
         else if even f then f else f + 1)"

text \<open>
  Rounding an exact result to binary64, to nearest with ties to even: the result is a
  multiple of \<open>2\<^sup>e\<close> with a 53-bit significand, \<open>e\<close> no smaller than the subnormal
  exponent -1074, and a result that reaches \<open>2\<^sup>1\<^sup>0\<^sup>2\<^sup>4\<close> overflows to infinity.
\<close>

definition float_round :: "rat \<Rightarrow> py_float" where
  "float_round q =
     (if q = 0 then Finite 0
      else let a = \<bar>q\<bar>;
               e = max (ilog2 a - 52) (- 1074);
               r = of_int (round_half_even (a / 2 powi e)) * 2 powi e
           in if 2 powi 1024 \<le> r then Infinite else Finite (sgn q * r))"

text \<open>Conversion of a Python int to float, as the mixed operators do it.\<close>

definition float_of_int :: "int \<Rightarrow> py_error + rat" where
  "float_of_int n =
     (case float_round (of_int n) of Finite r \<Rightarrow> Inr r | _ \<Rightarrow> Inl OverflowError)"

text \<open>\<open>x / y\<close> on finite floats.\<close>

definition float_div :: "rat \<Rightarrow> rat \<Rightarrow> py_error + py_float" where
  "float_div x y = (if y = 0 then Inl ZeroDivisionError else Inr (float_round (x / y)))"

text \<open>\<open>a * x\<close> for a finite float \<open>a\<close>.\<close>

fun float_mul :: "rat \<Rightarrow> py_float \<Rightarrow> py_float" where
  "float_mul a (Finite b) = float_round (a * b)"
| "float_mul a Infinite = (if a = 0 then NaN else Infinite)"
| "float_mul a NaN = NaN"

text \<open>\<open>n * x\<close> for a Python int \<open>n\<close> and a float \<open>x\<close>: the int is converted first.\<close>

definition int_times_float :: "int \<Rightarrow> py_float \<Rightarrow> py_error + py_float" where
  "int_times_float n x = bind_err (float_of_int n) (\<lambda>a. Inr (float_mul a x))"

text \<open>\<open>x * n\<close> for a float \<open>x\<close> and a Python int \<open>n\<close>.\<close>

definition float_times_int :: "py_float \<Rightarrow> int \<Rightarrow> py_error + py_float" where
  "float_times_int x n = bind_err (float_of_int n) (\<lambda>a. Inr (float_mul a x))"

text \<open>\<open>int(x)\<close> truncates towards zero and raises on an infinity or a NaN.\<close>

definition float_trunc :: "rat \<Rightarrow> int" where
  "float_trunc q = (if 0 \<le> q then \<lfloor>q\<rfloor> else \<lceil>q\<rceil>)"

fun py_int :: "py_float \<Rightarrow> py_error + int" where
  "py_int (Finite q) = Inr (float_trunc q)"
| "py_int Infinite = Inl OverflowError"
| "py_int NaN = Inl ValueError"

text \<open>
  \<open>d / i\<close> on Python ints: true division, correctly rounded, raising on a zero divisor
  and on a quotient too large for a float.
\<close>

definition int_truediv :: "int \<Rightarrow> int \<Rightarrow> py_error + py_float" where
  "int_truediv d i =
     (if i = 0 then Inl ZeroDivisionError
      else case float_round (of_int d / of_int i) of
             Finite q \<Rightarrow> Inr (Finite q)
           | _ \<Rightarrow> Inl OverflowError)"


section \<open>The data model\<close>

text \<open>
  A row of the frame has a tag name, a value and a timestamp. The value column is
  untyped in the source: the batch marker carries the batch name, a text, and every
  other row an integer count. A timestamp is a \<open>datetime\<close>, here the number of
  microseconds it denotes.
\<close>

type_synonym timestamp = int

datatype tagvalue = IntVal int | StrVal string

record sample =
  TAGNAME :: string
  TAGVALUE :: tagvalue
  TIMESTAMP :: timestamp

type_synonym dataframe = "sample list"

record session_state =
  streaming :: bool
  data :: dataframe
  start_time :: timestamp
  cumulative_data :: dataframe

text \<open>The sidebar controls, read afresh on every run of the script.\<close>

record config =
  batch_name :: string
  stream_speed :: int
  defect_rate_1 :: rat
  defect_rate_2 :: rat
  defect_rate_3 :: rat
  inspections_per_interval :: int

text \<open>
  The ranges the sliders enforce on what the generator reads: the three rates and the
  number of inspections.
\<close>

definition valid_config :: "config \<Rightarrow> bool" where
  "valid_config cfg \<longleftrightarrow>
     0 \<le> defect_rate_1 cfg \<and> defect_rate_1 cfg \<le> 5 \<and>
     0 \<le> defect_rate_2 cfg \<and> defect_rate_2 cfg \<le> 5 \<and>
     0 \<le> defect_rate_3 cfg \<and> defect_rate_3 cfg \<le> 5 \<and>
     100 \<le> inspections_per_interval cfg \<and> inspections_per_interval cfg \<le> 1000"

text \<open>The session state of a fresh session, \<open>now\<close> being the clock at its first run.\<close>

definition initial_state :: "timestamp \<Rightarrow> session_state" where
  "initial_state now =
     \<lparr>streaming = False, data = [], start_time = now, cumulative_data = []\<rparr>"


text \<open>
  The values the controls start with. The rate 0.8 is the float nearest to it,
  \<open>3602879701896397 / 2\<^sup>5\<^sup>2\<close>; 1.0 and 1.5 are floats as they stand.
\<close>

definition default_config :: config where
  "default_config =
     \<lparr>batch_name = ''Batch-1'', stream_speed = 5,
      defect_rate_1 = 1, defect_rate_2 = 3 / 2,
      defect_rate_3 = 3602879701896397 / 4503599627370496,
      inspections_per_interval = 500\<rparr>"


section \<open>The sample generator\<close>

text \<open>\<open>int(inspections_per_interval * (defect_rate / 100))\<close>.\<close>

definition base_defects :: "int \<Rightarrow> rat \<Rightarrow> py_error + int" where
  "base_defects inspections rate =
     bind_err (float_div rate 100) (\<lambda>fraction.
     bind_err (int_times_float inspections fraction) py_int)"

text \<open>
  The three draws of \<open>np.random.randint(-2, 3)\<close> are an argument, in the order the
  source draws them. The total computed before the noise is overwritten after the
  clamping and is not part of the result.
\<close>

type_synonym noise = "int \<times> int \<times> int"

definition noise_in_range :: "noise \<Rightarrow> bool" where
  "noise_in_range ns \<longleftrightarrow>
     (case ns of (n1, n2, n3) \<Rightarrow>
        - 2 \<le> n1 \<and> n1 < 3 \<and> - 2 \<le> n2 \<and> n2 < 3 \<and> - 2 \<le> n3 \<and> n3 < 3)"

definition generate_interval_data ::
    "config \<Rightarrow> noise \<Rightarrow> timestamp \<Rightarrow> py_error + dataframe" where
  "generate_interval_data cfg ns timestamp =
     bind_err (base_defects (inspections_per_interval cfg) (defect_rate_1 cfg)) (\<lambda>b1.
     bind_err (base_defects (inspections_per_interval cfg) (defect_rate_2 cfg)) (\<lambda>b2.
     bind_err (base_defects (inspections_per_interval cfg) (defect_rate_3 cfg)) (\<lambda>b3.
       (case ns of (n1, n2, n3) \<Rightarrow>
          let defects_1 = max 0 (b1 + n1);
              defects_2 = max 0 (b2 + n2);
              defects_3 = max 0 (b3 + n3);
              total_defects = defects_1 + defects_2 + defects_3
          in Inr [\<lparr>TAGNAME = ''tag-1'', TAGVALUE = IntVal defects_1, TIMESTAMP = timestamp\<rparr>,
                  \<lparr>TAGNAME = ''tag-2'', TAGVALUE = IntVal defects_2, TIMESTAMP = timestamp\<rparr>,
                  \<lparr>TAGNAME = ''tag-3'', TAGVALUE = IntVal defects_3, TIMESTAMP = timestamp\<rparr>,
                  \<lparr>TAGNAME = ''tag-4'', TAGVALUE = IntVal total_defects, TIMESTAMP = timestamp\<rparr>,
                  \<lparr>TAGNAME = ''tag-5'', TAGVALUE = IntVal (inspections_per_interval cfg),
                     TIMESTAMP = timestamp\<rparr>]))))"


section \<open>The cumulative view\<close>

text \<open>
  The value column holds Python objects, so its cumulative sum folds Python's \<open>+\<close>:
  integers add, texts concatenate, and a text with an integer raises TypeError.
\<close>

fun py_add :: "tagvalue \<Rightarrow> tagvalue \<Rightarrow> py_error + tagvalue" where
  "py_add (IntVal a) (IntVal b) = Inr (IntVal (a + b))"
| "py_add (StrVal a) (StrVal b) = Inr (StrVal (a @ b))"
| "py_add (IntVal a) (StrVal b) = Inl TypeError"
| "py_add (StrVal a) (IntVal b) = Inl TypeError"

fun cumsum_from :: "tagvalue \<Rightarrow> tagvalue list \<Rightarrow> py_error + tagvalue list" where
  "cumsum_from acc [] = Inr []"
| "cumsum_from acc (v # vs) =
     bind_err (py_add acc v) (\<lambda>acc'.
     bind_err (cumsum_from acc' vs) (\<lambda>rest. Inr (acc' # rest)))"

fun cumsum :: "tagvalue list \<Rightarrow> py_error + tagvalue list" where
  "cumsum [] = Inr []"
| "cumsum (v # vs) = bind_err (cumsum_from v vs) (\<lambda>rest. Inr (v # rest))"

text \<open>\<open>df[df['TAGNAME'] == tag]\<close>.\<close>

definition rows_with_tag :: "string \<Rightarrow> dataframe \<Rightarrow> dataframe" where
  "rows_with_tag tag df = filter (\<lambda>r. TAGNAME r = tag) df"

text \<open>\<open>tag_data['TAGVALUE'] = values\<close>, row by row.\<close>

definition assign_TAGVALUE :: "dataframe \<Rightarrow> tagvalue list \<Rightarrow> dataframe" where
  "assign_TAGVALUE df vs = map (\<lambda>(r, v). r\<lparr>TAGVALUE := v\<rparr>) (zip df vs)"

text \<open>
  One round of the loop over the two tags: the frames collected so far, with the
  frame of this tag appended unless the tag has no rows.
\<close>

definition cumulative_of_tag ::
    "dataframe \<Rightarrow> string \<Rightarrow> dataframe list \<Rightarrow> py_error + dataframe list" where
  "cumulative_of_tag df tag frames =
     (let tag_data = rows_with_tag tag df
      in if tag_data \<noteq> [] then
           bind_err (cumsum (map TAGVALUE tag_data)) (\<lambda>totals.
             Inr (frames @ [assign_TAGVALUE tag_data totals]))
         else Inr frames)"

definition update_cumulative_data :: "session_state \<Rightarrow> py_error + session_state" where
  "update_cumulative_data s =
     bind_err (cumulative_of_tag (data s) ''tag-4'' []) (\<lambda>frames4.
     bind_err (cumulative_of_tag (data s) ''tag-5'' frames4) (\<lambda>frames.
       if frames \<noteq> [] then Inr (s\<lparr>cumulative_data := concat frames\<rparr>) else Inr s))"

text \<open>
  What the two cumulative plots draw for a tag: the rows of the stored cumulative
  frame with that tag, as pairs of timestamp and running total.
\<close>

definition cumulative_view :: "string \<Rightarrow> session_state \<Rightarrow> (timestamp \<times> tagvalue) list" where
  "cumulative_view tag s =
     map (\<lambda>r. (TIMESTAMP r, TAGVALUE r)) (rows_with_tag tag (cumulative_data s))"

text \<open>
  The running totals as the specification words them: the total at position \<open>i\<close> is
  the sum of the values at positions \<open>0..i\<close>.
\<close>

definition running_totals :: "int list \<Rightarrow> int list" where
  "running_totals vs = map (\<lambda>i. sum_list (take (Suc i) vs)) [0..<length vs]"


section \<open>The streaming controller\<close>

text \<open>
  The handler of the Start/Stop button: it flips \<open>streaming\<close>, and when the stream is
  now running it records the start time and appends the batch marker.
\<close>

definition batch_marker :: "string \<Rightarrow> timestamp \<Rightarrow> sample" where
  "batch_marker name t = \<lparr>TAGNAME = ''tag-0'', TAGVALUE = StrVal name, TIMESTAMP = t\<rparr>"

definition start_stop_button :: "config \<Rightarrow> timestamp \<Rightarrow> session_state \<Rightarrow> session_state" where
  "start_stop_button cfg now s =
     (let s1 = s\<lparr>streaming := \<not> streaming s\<rparr>
      in if streaming s1 then
           let s2 = s1\<lparr>start_time := now\<rparr>
           in s2\<lparr>data := data s2 @ [batch_marker (batch_name cfg) (start_time s2)]\<rparr>
         else s1)"

text \<open>
  One round of the streaming loop, as far as it changes the session state: generate,
  append, recompute. The loop runs a round only while \<open>streaming\<close> holds.
\<close>

definition stream_tick ::
    "config \<Rightarrow> noise \<Rightarrow> timestamp \<Rightarrow> session_state \<Rightarrow> py_error + session_state" where
  "stream_tick cfg ns current_time s =
     bind_err (generate_interval_data cfg ns current_time) (\<lambda>new_data.
       update_cumulative_data (s\<lparr>data := data s @ new_data\<rparr>))"

text \<open>
  The session states the application reaches: a fresh session, a press of the button,
  and a round of the loop under a configuration and noise the controls and the random
  source can deliver.
\<close>

inductive reachable :: "session_state \<Rightarrow> bool" where
  fresh: "reachable (initial_state now)"
| button: "reachable s \<Longrightarrow> reachable (start_stop_button cfg now s)"
| tick: "reachable s \<Longrightarrow> streaming s \<Longrightarrow> valid_config cfg \<Longrightarrow> noise_in_range ns \<Longrightarrow>
         stream_tick cfg ns now s = Inr s' \<Longrightarrow> reachable s'"

code_pred reachable .


text \<open>
  The logs built by appending batch markers and generator output, in any order and
  under any noise.
\<close>

inductive generated_log :: "dataframe \<Rightarrow> bool" where
  no_rows: "generated_log []"
| marker: "generated_log df \<Longrightarrow> generated_log (df @ [batch_marker name t])"
| interval: "generated_log df \<Longrightarrow> valid_config cfg \<Longrightarrow>
             generate_interval_data cfg ns t = Inr rows \<Longrightarrow> generated_log (df @ rows)"

code_pred generated_log .


section \<open>The summary metrics\<close>

record metrics =
  total_inspected :: int
  total_defects :: int
  defect_rate :: py_float
  batch :: string

text \<open>
  \<open>df.groupby('TAGNAME').last().loc[tag, 'TAGVALUE']\<close>: the value of the last row with
  this tag, a KeyError when there is none.
\<close>

definition last_value :: "dataframe \<Rightarrow> string \<Rightarrow> tagvalue option" where
  "last_value df tag =
     (case rows_with_tag tag df of [] \<Rightarrow> None | r # rs \<Rightarrow> Some (TAGVALUE (last (r # rs))))"

text \<open>
  The metric block: \<open>None\<close> when the guard fails and nothing is shown. The grouped
  frame of a frame is empty exactly when the frame has no row. The rate is kept as the
  float the block computes; its rendering with two decimals is left to the display.
\<close>

definition display_metrics :: "config \<Rightarrow> session_state \<Rightarrow> py_error + metrics option" where
  "display_metrics cfg s =
     (if data s \<noteq> [] \<and> cumulative_data s \<noteq> [] then
        (case last_value (cumulative_data s) ''tag-5'' of
           None \<Rightarrow> Inl KeyError
         | Some (StrVal t) \<Rightarrow> Inl NonNumericValue
         | Some (IntVal i) \<Rightarrow>
             (case last_value (cumulative_data s) ''tag-4'' of
                None \<Rightarrow> Inl KeyError
              | Some (StrVal t) \<Rightarrow> Inl NonNumericValue
              | Some (IntVal d) \<Rightarrow>
                  bind_err (int_truediv d i) (\<lambda>q.
                  bind_err (float_times_int q 100) (\<lambda>rate.
                    Inr (Some \<lparr>total_inspected = i, total_defects = d,
                               defect_rate = rate, batch = batch_name cfg\<rparr>)))))
      else Inr None)"


section \<open>Properties of the binary64 rounding\<close>

lemma floorlog_rat_bounds:
  assumes "0 < (a::int)"
  shows "(2::rat) powi (int (floorlog 2 (nat a)) - 1) \<le> of_int a"
    and "(of_int a :: rat) < 2 powi int (floorlog 2 (nat a))"
proof -
  define n where "n = nat a"
  define l where "l = floorlog 2 n"
  have npos: "0 < n" using assms by (simp add: n_def)
  have an: "(of_int a :: rat) = of_nat n" using assms by (simp add: n_def)
  have bounds: "2 ^ (l - 1) \<le> n \<and> n < 2 ^ l"
    unfolding l_def using floorlog_bounds[of n 2] npos by simp
  have l1: "1 \<le> l" unfolding l_def using npos by (simp add: floorlog_def)
  have "(of_nat (2 ^ (l - 1)) :: rat) \<le> of_nat n"
    using bounds by (simp only: of_nat_le_iff)
  then have lo: "(2::rat) ^ (l - 1) \<le> of_nat n" by simp
  have "(of_nat n :: rat) < of_nat (2 ^ l)"
    using bounds by (simp only: of_nat_less_iff)
  then have hi: "(of_nat n :: rat) < 2 ^ l" by simp
  have e: "int l - 1 = int (l - 1)" using l1 by simp
  show "(2::rat) powi (int (floorlog 2 (nat a)) - 1) \<le> of_int a"
    using lo unfolding an l_def[symmetric] n_def[symmetric] e by simp
  show "(of_int a :: rat) < 2 powi int (floorlog 2 (nat a))"
    using hi unfolding an l_def[symmetric] n_def[symmetric] by simp
qed

lemma ilog2_bounds:
  assumes "0 < q"
  shows "2 powi (ilog2 q) \<le> q \<and> q < 2 powi (ilog2 q + 1)"
proof -
  obtain a b where ab: "quotient_of q = (a, b)" by (cases "quotient_of q")
  have bpos: "0 < b" using ab quotient_of_denom_pos by blast
  have q: "q = of_int a / of_int b" using ab quotient_of_div by blast
  have apos: "0 < a" using assms bpos q by (simp add: zero_less_divide_iff)
  define la where "la = int (floorlog 2 (nat a))"
  define lb where "lb = int (floorlog 2 (nat b))"
  have a_lo: "(2::rat) powi (la - 1) \<le> of_int a"
   and a_hi: "of_int a < (2::rat) powi la"
    unfolding la_def using floorlog_rat_bounds[OF apos] by blast+
  have b_lo: "(2::rat) powi (lb - 1) \<le> of_int b"
   and b_hi: "of_int b < (2::rat) powi lb"
    unfolding lb_def using floorlog_rat_bounds[OF bpos] by blast+
  define d where "d = la - lb"
  have il: "ilog2 q = (if 2 powi d \<le> q then d else d - 1)"
    unfolding ilog2_def ab d_def la_def lb_def by (simp add: Let_def)
  have bq: "(0::rat) < of_int b" using bpos by simp
  have p1: "(2::rat) powi (d + 1) * 2 powi (lb - 1) = 2 powi la"
    unfolding d_def by (subst power_int_add[symmetric]) simp_all
  have p2: "(2::rat) powi (d - 1) * 2 powi lb = 2 powi (la - 1)"
    unfolding d_def by (subst power_int_add[symmetric]) simp_all
  have hi: "q < 2 powi (d + 1)"
  proof -
    have "of_int a < (2::rat) powi (d + 1) * 2 powi (lb - 1)"
      using a_hi p1 by simp
    also have "\<dots> \<le> 2 powi (d + 1) * of_int b"
      using b_lo by (intro mult_left_mono) simp_all
    finally show ?thesis unfolding q using bq by (simp add: pos_divide_less_eq)
  qed
  have lo: "2 powi (d - 1) \<le> q"
  proof -
    have "(2::rat) powi (d - 1) * of_int b \<le> 2 powi (d - 1) * 2 powi lb"
      using b_hi by (intro mult_left_mono) simp_all
    also have "\<dots> = 2 powi (la - 1)" by (rule p2)
    also have "\<dots> \<le> of_int a" by (rule a_lo)
    finally show ?thesis unfolding q using bq by (simp add: pos_le_divide_eq)
  qed
  show ?thesis
  proof (cases "2 powi d \<le> q")
    case True
    then show ?thesis using hi il by simp
  next
    case False
    then have "q < 2 powi d" by simp
    then show ?thesis using lo il False by simp
  qed
qed

lemma ilog2_eqI:
  assumes "0 < q" "2 powi k \<le> q" "q < 2 powi (k + 1)"
  shows "ilog2 q = k"
proof -
  define j where "j = ilog2 q"
  have j: "2 powi j \<le> q" "q < 2 powi (j + 1)"
    using ilog2_bounds[OF assms(1)] by (simp_all add: j_def)
  have "\<not> k + 1 \<le> j"
  proof
    assume "k + 1 \<le> j"
    then have "(2::rat) powi (k + 1) \<le> 2 powi j" by (intro power_int_increasing) simp_all
    with j(1) assms(3) show False by simp
  qed
  moreover have "\<not> j + 1 \<le> k"
  proof
    assume "j + 1 \<le> k"
    then have "(2::rat) powi (j + 1) \<le> 2 powi k" by (intro power_int_increasing) simp_all
    with j(2) assms(2) show False by simp
  qed
  ultimately show ?thesis unfolding j_def by simp
qed

lemma round_half_even_close: "\<bar>of_int (round_half_even x) - x\<bar> \<le> 1 / 2"
proof -
  have "of_int \<lfloor>x\<rfloor> \<le> x" "x < of_int \<lfloor>x\<rfloor> + 1" by linarith+
  then show ?thesis unfolding round_half_even_def Let_def by (auto simp: abs_le_iff)
qed

lemma round_half_even_nonneg: "0 \<le> x \<Longrightarrow> 0 \<le> round_half_even x"
  unfolding round_half_even_def Let_def by auto

lemma float_round_pos:
  assumes "0 < q" "2 powi k \<le> q" "q < 2 powi (k + 1)"
  shows "float_round q =
    (let e = max (k - 52) (- 1074);
         r = of_int (round_half_even (q / 2 powi e)) * 2 powi e
     in if 2 powi 1024 \<le> r then Infinite else Finite r)"
proof -
  have "\<bar>q\<bar> = q" using assms(1) by simp
  then show ?thesis
    using assms(1) by (simp add: float_round_def Let_def ilog2_eqI[OF assms])
qed

lemma float_round_bounded:
  assumes "0 \<le> q" "q \<le> 2 ^ 1000"
  shows "\<exists>r. float_round q = Finite r \<and> 0 \<le> r \<and> r \<le> 2 * q + 1"
proof (cases "q = 0")
  case True
  then show ?thesis by (simp add: float_round_def)
next
  case False
  with assms have qpos: "0 < q" by simp
  define k where "k = ilog2 q"
  define e where "e = max (k - 52) (- 1074)"
  define m where "m = round_half_even (q / 2 powi e)"
  define r where "r = (of_int m :: rat) * 2 powi e"
  have epos: "(0::rat) < 2 powi e" by (rule zero_less_power_int) simp
  have kq: "2 powi k \<le> q" using ilog2_bounds[OF qpos] by (simp add: k_def)
  have "(2::rat) powi e \<le> q + 1"
  proof (cases "k - 52 \<le> - 1074")
    case True
    then have "e = - 1074" by (simp add: e_def)
    then have "(2::rat) powi e \<le> 2 powi 0" by (intro power_int_increasing) simp_all
    then show ?thesis using qpos by simp
  next
    case False
    then have "e = k - 52" by (simp add: e_def)
    then have "(2::rat) powi e \<le> 2 powi k" by (intro power_int_increasing) simp_all
    then show ?thesis using kq by simp
  qed
  have m0: "0 \<le> m" unfolding m_def using qpos epos
    by (intro round_half_even_nonneg) simp
  have "of_int m \<le> q / 2 powi e + 1"
    using round_half_even_close[of "q / 2 powi e"] unfolding m_def by linarith
  then have "r \<le> (q / 2 powi e + 1) * 2 powi e"
    unfolding r_def using epos by (intro mult_right_mono) simp_all
  also have "\<dots> = q + 2 powi e" using epos by (simp add: field_simps)
  also have "\<dots> \<le> 2 * q + 1" using \<open>2 powi e \<le> q + 1\<close> by simp
  finally have rle: "r \<le> 2 * q + 1" .
  have r0: "0 \<le> r" unfolding r_def using m0 epos by simp
  have "2 * q + 1 < 2 ^ 1024"
  proof -
    have "2 * q + 1 \<le> 2 * 2 ^ 1000 + (1::rat)" using assms(2) by simp
    also have "\<dots> < 2 ^ 1024" by simp
    finally show ?thesis .
  qed
  with rle have "\<not> 2 powi 1024 \<le> r" by simp
  moreover have "float_round q =
      (let e = max (k - 52) (- 1074);
           r = of_int (round_half_even (q / 2 powi e)) * 2 powi e
       in if 2 powi 1024 \<le> r then Infinite else Finite r)"
    using ilog2_bounds[OF qpos] unfolding k_def by (intro float_round_pos[OF qpos]) simp_all
  ultimately have "float_round q = Finite r"
    by (simp only: Let_def r_def m_def e_def if_False)
  with r0 rle show ?thesis by blast
qed


lemma round_half_even_eqI:
  assumes "\<bar>of_int m - x\<bar> < 1 / 2"
  shows "round_half_even x = m"
proof -
  define f where "f = \<lfloor>x\<rfloor>"
  have fl: "of_int f \<le> x" "x < of_int f + 1" unfolding f_def by linarith+
  consider "x - of_int f < 1 / 2" | "1 / 2 < x - of_int f" | "x - of_int f = 1 / 2"
    by linarith
  then show ?thesis
  proof cases
    case 1
    with assms fl have "(of_int (m - 1) :: rat) < of_int f" "(of_int f :: rat) < of_int (m + 1)"
      by (simp_all, linarith+)
    then have "m - 1 < f" "f < m + 1" by (simp_all only: of_int_less_iff)
    then have "f = m" by simp
    with 1 show ?thesis unfolding round_half_even_def Let_def f_def[symmetric] by simp
  next
    case 2
    with assms fl have "(of_int (m - 1) :: rat) < of_int (f + 1)" "(of_int (f + 1) :: rat) < of_int (m + 1)"
      by (simp_all, linarith+)
    then have "m - 1 < f + 1" "f + 1 < m + 1" by (simp_all only: of_int_less_iff)
    then have "f + 1 = m" by simp
    with 2 show ?thesis unfolding round_half_even_def Let_def f_def[symmetric] by auto
  next
    case 3
    with assms have "(of_int f :: rat) < of_int m" "(of_int m :: rat) < of_int (f + 1)"
      by (simp_all, linarith+)
    then have "f < m" "m < f + 1" by (simp_all only: of_int_less_iff)
    then show ?thesis by simp
  qed
qed

lemma float_round_eqI:
  assumes "0 < q" "2 powi k \<le> q" "q < 2 powi (k + 1)"
    and "e = max (k - 52) (- 1074)"
    and "\<bar>of_int m * 2 powi e - q\<bar> < 2 powi e / 2"
    and "of_int m * 2 powi e < (2::rat) powi 1024"
  shows "float_round q = Finite (of_int m * 2 powi e)"
proof -
  have epos: "(0::rat) < 2 powi e" by (rule zero_less_power_int) simp
  have "\<bar>of_int m - q / 2 powi e\<bar> * 2 powi e = \<bar>of_int m * 2 powi e - q\<bar>"
  proof -
    have "\<bar>of_int m - q / 2 powi e\<bar> * 2 powi e = \<bar>(of_int m - q / 2 powi e) * 2 powi e\<bar>"
      using epos by (simp add: abs_mult)
    also have "(of_int m - q / 2 powi e) * 2 powi e = of_int m * 2 powi e - q"
      using epos by (simp add: field_simps)
    finally show ?thesis .
  qed
  then have "\<bar>of_int m - q / 2 powi e\<bar> * 2 powi e < (1 / 2) * 2 powi e"
    using assms(5) by simp
  then have "\<bar>of_int m - q / 2 powi e\<bar> < 1 / 2"
    using epos by (simp only: mult_less_cancel_right_pos)
  then have "round_half_even (q / 2 powi e) = m" by (rule round_half_even_eqI)
  then show ?thesis
    using assms(4,6) by (simp add: float_round_pos[OF assms(1-3)] Let_def)
qed

section \<open>Properties of the sample generator\<close>

lemma float_trunc_nonneg: "0 \<le> q \<Longrightarrow> 0 \<le> float_trunc q"
  by (simp add: float_trunc_def)

lemma base_defects_total:
  assumes "0 \<le> rate" "rate \<le> 5" "100 \<le> n" "n \<le> 1000"
  shows "\<exists>b. base_defects n rate = Inr b \<and> 0 \<le> b"
proof -
  have "0 \<le> rate / 100" "rate / 100 \<le> 2 ^ 1000" using assms(1,2) by simp_all
  then obtain f where f: "float_round (rate / 100) = Finite f" "0 \<le> f" "f \<le> 2 * (rate / 100) + 1"
    using float_round_bounded by blast
  have "(0::rat) \<le> of_int n" "(of_int n :: rat) \<le> 2 ^ 1000" using assms(3,4) by simp_all
  then obtain a where a: "float_round (of_int n) = Finite a" "0 \<le> a" "a \<le> 2 * of_int n + 1"
    using float_round_bounded by blast
  have f2: "f \<le> 2" using f(3) assms(2) by simp
  have a2: "a \<le> 2001" using a(3) assms(4) by simp
  have "a * f \<le> 2001 * 2" using a2 f2 a(2) f(2) by (intro mult_mono) simp_all
  then have "0 \<le> a * f" "a * f \<le> 2 ^ 1000" using a(2) f(2) by simp_all
  then obtain p where p: "float_round (a * f) = Finite p" "0 \<le> p"
    using float_round_bounded by blast
  have "base_defects n rate = Inr (float_trunc p)"
    by (simp add: base_defects_def float_div_def int_times_float_def float_of_int_def
        bind_err_def f(1) a(1) p(1))
  with p(2) show ?thesis by (simp add: float_trunc_nonneg)
qed

lemma base_defects_eqI:
  assumes "float_round (rate / 100) = Finite f"
    and "float_round (of_int n) = Finite a"
    and "float_round (a * f) = Finite p"
  shows "base_defects n rate = Inr (float_trunc p)"
  by (simp add: base_defects_def float_div_def int_times_float_def float_of_int_def
      bind_err_def assms)

lemma float_round_500: "float_round 500 = Finite 500"
proof -
  have "float_round 500 = Finite (of_int 8796093022208000 * 2 powi (- 44))"
    by (rule float_round_eqI[where k = 8]) (simp_all add: power_int_minus)
  then show ?thesis by (simp add: power_int_minus)
qed

lemma base_defects_500_rate_1: "base_defects 500 1 = Inr 5"
proof -
  have f: "float_round (1 / 100) = Finite (of_int 5764607523034235 * 2 powi (- 59))"
    by (rule float_round_eqI[where k = "- 7"]) (simp_all add: power_int_minus)
  have p: "float_round (500 * (of_int 5764607523034235 * 2 powi (- 59)))
           = Finite (of_int 5629499534213120 * 2 powi (- 50))"
    by (rule float_round_eqI[where k = 2]) (simp_all add: power_int_minus)
  have "base_defects 500 1 = Inr (float_trunc (of_int 5629499534213120 * 2 powi (- 50)))"
    by (rule base_defects_eqI[where a = 500, OF f _ p]) (simp add: float_round_500)
  then show ?thesis by (simp add: power_int_minus float_trunc_def)
qed

lemma base_defects_500_rate_2: "base_defects 500 (3 / 2) = Inr 7"
proof -
  have f: "float_round (3 / 2 / 100) = Finite (of_int 8646911284551352 * 2 powi (- 59))"
    by (rule float_round_eqI[where k = "- 7"]) (simp_all add: power_int_minus)
  have p: "float_round (500 * (of_int 8646911284551352 * 2 powi (- 59)))
           = Finite (of_int 8444249301319680 * 2 powi (- 50))"
    by (rule float_round_eqI[where k = 2]) (simp_all add: power_int_minus)
  have "base_defects 500 (3 / 2) = Inr (float_trunc (of_int 8444249301319680 * 2 powi (- 50)))"
    by (rule base_defects_eqI[where a = 500, OF f _ p]) (simp add: float_round_500)
  moreover have "\<lfloor>15 / 2 :: rat\<rfloor> = 7" by (simp add: floor_eq_iff)
  ultimately show ?thesis by (simp add: power_int_minus float_trunc_def)
qed

lemma base_defects_500_rate_3:
  "base_defects 500 (3602879701896397 / 4503599627370496) = Inr 4"
proof -
  have f: "float_round (3602879701896397 / 4503599627370496 / 100)
           = Finite (of_int 4611686018427388 * 2 powi (- 59))"
    by (rule float_round_eqI[where k = "- 7"]) (simp_all add: power_int_minus)
  have p: "float_round (500 * (of_int 4611686018427388 * 2 powi (- 59)))
           = Finite (of_int 4503599627370496 * 2 powi (- 50))"
    by (rule float_round_eqI[where k = 2]) (simp_all add: power_int_minus)
  have "base_defects 500 (3602879701896397 / 4503599627370496)
        = Inr (float_trunc (of_int 4503599627370496 * 2 powi (- 50)))"
    by (rule base_defects_eqI[where a = 500, OF f _ p]) (simp add: float_round_500)
  then show ?thesis by (simp add: power_int_minus float_trunc_def)
qed

lemma float_round_0_8: "float_round (4 / 5) = Finite (3602879701896397 / 4503599627370496)"
proof -
  have "float_round (4 / 5) = Finite (of_int 7205759403792794 * 2 powi (- 53))"
    by (rule float_round_eqI[where k = "- 1"]) (simp_all add: power_int_minus)
  then show ?thesis by (simp add: power_int_minus)
qed


lemma valid_default_config: "valid_config default_config"
  by (simp add: valid_config_def default_config_def)

lemma generate_default_config:
  "generate_interval_data default_config (0, 0, 0) t =
     Inr [\<lparr>TAGNAME = ''tag-1'', TAGVALUE = IntVal 5, TIMESTAMP = t\<rparr>,
          \<lparr>TAGNAME = ''tag-2'', TAGVALUE = IntVal 7, TIMESTAMP = t\<rparr>,
          \<lparr>TAGNAME = ''tag-3'', TAGVALUE = IntVal 4, TIMESTAMP = t\<rparr>,
          \<lparr>TAGNAME = ''tag-4'', TAGVALUE = IntVal 16, TIMESTAMP = t\<rparr>,
          \<lparr>TAGNAME = ''tag-5'', TAGVALUE = IntVal 500, TIMESTAMP = t\<rparr>]"
  by (simp add: generate_interval_data_def default_config_def bind_err_def
      base_defects_500_rate_1 base_defects_500_rate_2 base_defects_500_rate_3)

lemma generate_valid:
  assumes "valid_config cfg"
  shows "\<exists>b1 b2 b3.
    0 \<le> b1 \<and> 0 \<le> b2 \<and> 0 \<le> b3 \<and>
    generate_interval_data cfg (n1, n2, n3) t =
     Inr [\<lparr>TAGNAME = ''tag-1'', TAGVALUE = IntVal (max 0 (b1 + n1)), TIMESTAMP = t\<rparr>,
          \<lparr>TAGNAME = ''tag-2'', TAGVALUE = IntVal (max 0 (b2 + n2)), TIMESTAMP = t\<rparr>,
          \<lparr>TAGNAME = ''tag-3'', TAGVALUE = IntVal (max 0 (b3 + n3)), TIMESTAMP = t\<rparr>,
          \<lparr>TAGNAME = ''tag-4'',
             TAGVALUE = IntVal (max 0 (b1 + n1) + max 0 (b2 + n2) + max 0 (b3 + n3)),
             TIMESTAMP = t\<rparr>,
          \<lparr>TAGNAME = ''tag-5'', TAGVALUE = IntVal (inspections_per_interval cfg),
             TIMESTAMP = t\<rparr>]"
proof -
  have n: "100 \<le> inspections_per_interval cfg" "inspections_per_interval cfg \<le> 1000"
    using assms by (simp_all add: valid_config_def)
  obtain b1 where b1: "base_defects (inspections_per_interval cfg) (defect_rate_1 cfg) = Inr b1" "0 \<le> b1"
    using base_defects_total[OF _ _ n] assms unfolding valid_config_def by blast
  obtain b2 where b2: "base_defects (inspections_per_interval cfg) (defect_rate_2 cfg) = Inr b2" "0 \<le> b2"
    using base_defects_total[OF _ _ n] assms unfolding valid_config_def by blast
  obtain b3 where b3: "base_defects (inspections_per_interval cfg) (defect_rate_3 cfg) = Inr b3" "0 \<le> b3"
    using base_defects_total[OF _ _ n] assms unfolding valid_config_def by blast
  show ?thesis
    using b1 b2 b3
    by (intro exI[of _ b1] exI[of _ b2] exI[of _ b3])
       (simp add: generate_interval_data_def bind_err_def Let_def)
qed

section \<open>Properties of the cumulative sums\<close>

lemma running_totals_Nil: "running_totals [] = []"
  by (simp add: running_totals_def)

lemma running_totals_Cons:
  "running_totals (v # vs) = v # map ((+) v) (running_totals vs)"
proof -
  have "[0..<Suc (length vs)] = 0 # map Suc [0..<length vs]"
    by (simp add: upt_conv_Cons map_Suc_upt del: upt_Suc)
  then show ?thesis
    by (simp add: running_totals_def comp_def del: upt_Suc)
qed

lemma length_running_totals: "length (running_totals vs) = length vs"
  by (simp add: running_totals_def)

lemma running_totals_nonneg:
  "\<forall>v\<in>set vs. 0 \<le> v \<Longrightarrow> \<forall>x\<in>set (running_totals vs). 0 \<le> x"
  by (induction vs) (auto simp: running_totals_Nil running_totals_Cons)

lemma sorted_running_totals:
  "\<forall>v\<in>set vs. 0 \<le> v \<Longrightarrow> sorted (running_totals vs)"
proof (induction vs)
  case Nil
  then show ?case by (simp add: running_totals_Nil)
next
  case (Cons v vs)
  then have "sorted (running_totals vs)" "\<forall>x\<in>set (running_totals vs). 0 \<le> x"
    using running_totals_nonneg[of vs] by simp_all
  moreover have "sorted (map ((+) v) (running_totals vs))"
    using \<open>sorted (running_totals vs)\<close> by (simp add: sorted_map)
  ultimately show ?case by (auto simp: running_totals_Cons)
qed

lemma cumsum_from_ints:
  "cumsum_from (IntVal a) (map IntVal vs) =
     Inr (map IntVal (map ((+) a) (running_totals vs)))"
proof (induction vs arbitrary: a)
  case Nil
  then show ?case by (simp add: running_totals_Nil)
next
  case (Cons v vs)
  show ?case
    by (simp add: Cons.IH bind_err_def running_totals_Cons comp_def add.assoc)
qed

lemma cumsum_ints: "cumsum (map IntVal vs) = Inr (map IntVal (running_totals vs))"
  by (cases vs) (simp_all add: cumsum_from_ints bind_err_def running_totals_Nil
      running_totals_Cons)

lemma rows_with_tag_append:
  "rows_with_tag tag (df @ df') = rows_with_tag tag df @ rows_with_tag tag df'"
  by (simp add: rows_with_tag_def)

lemma TAGNAME_rows_with_tag: "r \<in> set (rows_with_tag tag df) \<Longrightarrow> TAGNAME r = tag"
  by (simp add: rows_with_tag_def)

lemma rows_with_tag_assign_same:
  "\<forall>r\<in>set df. TAGNAME r = tag \<Longrightarrow>
   rows_with_tag tag (assign_TAGVALUE df vs) = assign_TAGVALUE df vs"
proof (induction df arbitrary: vs)
  case Nil
  then show ?case by (simp add: assign_TAGVALUE_def rows_with_tag_def)
next
  case (Cons r df)
  then show ?case
    by (cases vs) (simp_all add: assign_TAGVALUE_def rows_with_tag_def)
qed

lemma rows_with_tag_assign_other:
  "\<forall>r\<in>set df. TAGNAME r \<noteq> tag \<Longrightarrow> rows_with_tag tag (assign_TAGVALUE df vs) = []"
proof (induction df arbitrary: vs)
  case Nil
  then show ?case by (simp add: assign_TAGVALUE_def rows_with_tag_def)
next
  case (Cons r df)
  then show ?case
    by (cases vs) (simp_all add: assign_TAGVALUE_def rows_with_tag_def)
qed

lemma rows_with_tag_assign:
  "rows_with_tag tag (assign_TAGVALUE (rows_with_tag tag' df) vs) =
     (if tag = tag' then assign_TAGVALUE (rows_with_tag tag' df) vs else [])"
proof (cases "tag = tag'")
  case True
  then show ?thesis
    using rows_with_tag_assign_same[of "rows_with_tag tag' df" tag' vs]
    by (simp add: TAGNAME_rows_with_tag)
next
  case False
  then have "\<forall>r\<in>set (rows_with_tag tag' df). TAGNAME r \<noteq> tag"
    by (simp add: rows_with_tag_def)
  then show ?thesis using False by (simp add: rows_with_tag_assign_other)
qed

lemma view_of_assign:
  "map (\<lambda>r. (TIMESTAMP r, TAGVALUE r)) (assign_TAGVALUE df vs) = zip (map TIMESTAMP df) vs"
  by (simp add: assign_TAGVALUE_def zip_map1 case_prod_unfold)

lemma assign_TAGVALUE_Nil: "assign_TAGVALUE [] vs = []" "assign_TAGVALUE df [] = []"
  by (simp_all add: assign_TAGVALUE_def)

lemma cumulative_of_tag_ints:
  assumes "map TAGVALUE (rows_with_tag tag df) = map IntVal vs"
  shows "cumulative_of_tag df tag frames =
    Inr (if vs = [] then frames
         else frames @ [assign_TAGVALUE (rows_with_tag tag df) (map IntVal (running_totals vs))])"
proof -
  have "length (rows_with_tag tag df) = length vs"
    using assms by (metis length_map)
  then have "rows_with_tag tag df = [] \<longleftrightarrow> vs = []" by (simp only: length_0_conv[symmetric])
  then show ?thesis
    by (simp add: cumulative_of_tag_def Let_def assms cumsum_ints bind_err_def)
qed

lemma update_cumulative_data_ints:
  assumes "map TAGVALUE (rows_with_tag ''tag-4'' (data s)) = map IntVal v4"
    and "map TAGVALUE (rows_with_tag ''tag-5'' (data s)) = map IntVal v5"
  shows "update_cumulative_data s =
    Inr (if v4 = [] \<and> v5 = [] then s
         else s\<lparr>cumulative_data :=
                assign_TAGVALUE (rows_with_tag ''tag-4'' (data s)) (map IntVal (running_totals v4)) @
                assign_TAGVALUE (rows_with_tag ''tag-5'' (data s)) (map IntVal (running_totals v5))\<rparr>)"
proof -
  have "length (rows_with_tag ''tag-4'' (data s)) = length v4"
    using assms(1) by (metis length_map)
  then have e4: "rows_with_tag ''tag-4'' (data s) = [] \<longleftrightarrow> v4 = []"
    by (simp only: length_0_conv[symmetric])
  have "length (rows_with_tag ''tag-5'' (data s)) = length v5"
    using assms(2) by (metis length_map)
  then have e5: "rows_with_tag ''tag-5'' (data s) = [] \<longleftrightarrow> v5 = []"
    by (simp only: length_0_conv[symmetric])
  show ?thesis
    using e4 e5
    by (simp add: update_cumulative_data_def bind_err_def
        cumulative_of_tag_ints[OF assms(1)] cumulative_of_tag_ints[OF assms(2)]
        assign_TAGVALUE_Nil running_totals_Nil)
qed

lemma cumulative_view_update:
  "cumulative_view tag (s\<lparr>cumulative_data :=
       assign_TAGVALUE (rows_with_tag ''tag-4'' df) w4 @
       assign_TAGVALUE (rows_with_tag ''tag-5'' df) w5\<rparr>) =
   (if tag = ''tag-4'' then zip (map TIMESTAMP (rows_with_tag ''tag-4'' df)) w4
    else if tag = ''tag-5'' then zip (map TIMESTAMP (rows_with_tag ''tag-5'' df)) w5
    else [])"
proof -
  have "cumulative_view tag (s\<lparr>cumulative_data :=
       assign_TAGVALUE (rows_with_tag ''tag-4'' df) w4 @
       assign_TAGVALUE (rows_with_tag ''tag-5'' df) w5\<rparr>) =
     map (\<lambda>r. (TIMESTAMP r, TAGVALUE r))
       (rows_with_tag tag (assign_TAGVALUE (rows_with_tag ''tag-4'' df) w4) @
        rows_with_tag tag (assign_TAGVALUE (rows_with_tag ''tag-5'' df) w5))"
    by (simp add: cumulative_view_def rows_with_tag_append)
  then show ?thesis
    by (simp add: rows_with_tag_assign view_of_assign)
qed

section \<open>Counts in generated logs\<close>

lemma float_trunc_le: "0 \<le> q \<Longrightarrow> of_int (float_trunc q) \<le> q"
  by (simp add: float_trunc_def)

lemma base_defects_bounded:
  assumes "0 \<le> rate" "rate \<le> 5" "100 \<le> n" "n \<le> 1000"
  shows "\<exists>b. base_defects n rate = Inr b \<and> 0 \<le> b \<and> b \<le> 5 * n"
proof -
  have "0 \<le> rate / 100" "rate / 100 \<le> 2 ^ 1000" using assms(1,2) by simp_all
  then obtain f where f: "float_round (rate / 100) = Finite f" "0 \<le> f" "f \<le> 2 * (rate / 100) + 1"
    using float_round_bounded by blast
  have "(0::rat) \<le> of_int n" "(of_int n :: rat) \<le> 2 ^ 1000" using assms(3,4) by simp_all
  then obtain a where a: "float_round (of_int n) = Finite a" "0 \<le> a" "a \<le> 2 * of_int n + 1"
    using float_round_bounded by blast
  have f2: "f \<le> 11 / 10" using f(3) assms(2) by simp
  have af: "a * f \<le> (2 * of_int n + 1) * (11 / 10)"
    using a(2,3) f(2) f2 by (intro mult_mono) simp_all
  have "(2 * of_int n + 1) * (11 / 10) \<le> (2001 * 2 :: rat)" using assms(4) by simp
  with af have "0 \<le> a * f" "a * f \<le> 2 ^ 1000" using a(2) f(2) by simp_all
  then obtain p where p: "float_round (a * f) = Finite p" "0 \<le> p" "p \<le> 2 * (a * f) + 1"
    using float_round_bounded by blast
  have b: "base_defects n rate = Inr (float_trunc p)"
    by (simp add: base_defects_def float_div_def int_times_float_def float_of_int_def
        bind_err_def f(1) a(1) p(1))
  have "of_int (float_trunc p) \<le> p" using p(2) by (rule float_trunc_le)
  also have "p \<le> 2 * ((2 * of_int n + 1) * (11 / 10)) + 1" using p(3) af by linarith
  also have "\<dots> \<le> of_int (5 * n)"
  proof -
    define x :: rat where "x = of_int n"
    have "100 \<le> x" using assms(3) by (simp add: x_def)
    moreover have "2 * ((2 * x + 1) * (11 / 10)) + 1 = (22 / 5) * x + 16 / 5"
      by (simp add: field_simps)
    ultimately have "2 * ((2 * x + 1) * (11 / 10)) + 1 \<le> 5 * x" by linarith
    then show ?thesis by (simp add: x_def)
  qed
  finally have "float_trunc p \<le> 5 * n" by (simp only: of_int_le_iff)
  with b p(2) show ?thesis by (simp add: float_trunc_nonneg)
qed

lemma generate_valid_bounded:
  assumes "valid_config cfg" "noise_in_range ns"
  shows "\<exists>d1 d2 d3.
    generate_interval_data cfg ns t =
      Inr [\<lparr>TAGNAME = ''tag-1'', TAGVALUE = IntVal d1, TIMESTAMP = t\<rparr>,
           \<lparr>TAGNAME = ''tag-2'', TAGVALUE = IntVal d2, TIMESTAMP = t\<rparr>,
           \<lparr>TAGNAME = ''tag-3'', TAGVALUE = IntVal d3, TIMESTAMP = t\<rparr>,
           \<lparr>TAGNAME = ''tag-4'', TAGVALUE = IntVal (d1 + d2 + d3), TIMESTAMP = t\<rparr>,
           \<lparr>TAGNAME = ''tag-5'', TAGVALUE = IntVal (inspections_per_interval cfg),
              TIMESTAMP = t\<rparr>]
    \<and> 0 \<le> d1 + d2 + d3 \<and> d1 + d2 + d3 \<le> 16 * inspections_per_interval cfg"
proof -
  obtain n1 n2 n3 where ns: "ns = (n1, n2, n3)" by (cases ns) auto
  have noise: "n1 \<le> 2" "n2 \<le> 2" "n3 \<le> 2"
    using assms(2) by (simp_all add: ns noise_in_range_def)
  have n: "100 \<le> inspections_per_interval cfg" "inspections_per_interval cfg \<le> 1000"
    using assms(1) by (simp_all add: valid_config_def)
  obtain b1 where b1: "base_defects (inspections_per_interval cfg) (defect_rate_1 cfg) = Inr b1"
      "0 \<le> b1" "b1 \<le> 5 * inspections_per_interval cfg"
    using base_defects_bounded[OF _ _ n] assms(1) unfolding valid_config_def by blast
  obtain b2 where b2: "base_defects (inspections_per_interval cfg) (defect_rate_2 cfg) = Inr b2"
      "0 \<le> b2" "b2 \<le> 5 * inspections_per_interval cfg"
    using base_defects_bounded[OF _ _ n] assms(1) unfolding valid_config_def by blast
  obtain b3 where b3: "base_defects (inspections_per_interval cfg) (defect_rate_3 cfg) = Inr b3"
      "0 \<le> b3" "b3 \<le> 5 * inspections_per_interval cfg"
    using base_defects_bounded[OF _ _ n] assms(1) unfolding valid_config_def by blast
  have "max 0 (b1 + n1) + max 0 (b2 + n2) + max 0 (b3 + n3) \<le> 16 * inspections_per_interval cfg"
    using noise b1(2,3) b2(2,3) b3(2,3) n(1) by linarith
  moreover have "0 \<le> max 0 (b1 + n1) + max 0 (b2 + n2) + max 0 (b3 + n3)" by simp
  ultimately show ?thesis
    using b1(1) b2(1) b3(1) unfolding ns
    by (intro exI[of _ "max 0 (b1 + n1)"] exI[of _ "max 0 (b2 + n2)"]
        exI[of _ "max 0 (b3 + n3)"])
       (simp add: generate_interval_data_def bind_err_def Let_def)
qed

lemma rows_with_tag_marker:
  "tag \<noteq> ''tag-0'' \<Longrightarrow> rows_with_tag tag (df @ [batch_marker name t]) = rows_with_tag tag df"
  by (simp add: rows_with_tag_def batch_marker_def)

lemma generated_log_counts:
  assumes "generated_log df"
  shows "\<exists>v4 v5.
    map TAGVALUE (rows_with_tag ''tag-4'' df) = map IntVal v4 \<and>
    map TAGVALUE (rows_with_tag ''tag-5'' df) = map IntVal v5 \<and>
    (\<forall>x\<in>set v4. 0 \<le> x) \<and> (\<forall>x\<in>set v5. 100 \<le> x)"
  using assms
proof (induction rule: generated_log.induct)
  case no_rows
  show ?case by (simp add: rows_with_tag_def)
next
  case (marker df name t)
  then show ?case by (simp add: rows_with_tag_marker)
next
  case (interval df cfg ns t rows)
  then obtain v4 v5 where v:
    "map TAGVALUE (rows_with_tag ''tag-4'' df) = map IntVal v4"
    "map TAGVALUE (rows_with_tag ''tag-5'' df) = map IntVal v5"
    "\<forall>x\<in>set v4. 0 \<le> x" "\<forall>x\<in>set v5. 100 \<le> x"
    by blast
  obtain n1 n2 n3 where ns: "ns = (n1, n2, n3)" by (cases ns) auto
  from generate_valid[OF interval.hyps(2), of n1 n2 n3 t] interval.hyps(3)
  obtain b1 b2 b3 where rows: "rows =
     [\<lparr>TAGNAME = ''tag-1'', TAGVALUE = IntVal (max 0 (b1 + n1)), TIMESTAMP = t\<rparr>,
      \<lparr>TAGNAME = ''tag-2'', TAGVALUE = IntVal (max 0 (b2 + n2)), TIMESTAMP = t\<rparr>,
      \<lparr>TAGNAME = ''tag-3'', TAGVALUE = IntVal (max 0 (b3 + n3)), TIMESTAMP = t\<rparr>,
      \<lparr>TAGNAME = ''tag-4'',
         TAGVALUE = IntVal (max 0 (b1 + n1) + max 0 (b2 + n2) + max 0 (b3 + n3)),
         TIMESTAMP = t\<rparr>,
      \<lparr>TAGNAME = ''tag-5'', TAGVALUE = IntVal (inspections_per_interval cfg),
         TIMESTAMP = t\<rparr>]"
    unfolding ns by auto
  have n: "100 \<le> inspections_per_interval cfg"
    using interval.hyps(2) by (simp add: valid_config_def)
  have r4: "map TAGVALUE (rows_with_tag ''tag-4'' (df @ rows)) =
      map IntVal (v4 @ [max 0 (b1 + n1) + max 0 (b2 + n2) + max 0 (b3 + n3)])"
    by (simp add: rows_with_tag_append v(1)) (simp add: rows rows_with_tag_def)
  have r5: "map TAGVALUE (rows_with_tag ''tag-5'' (df @ rows)) =
      map IntVal (v5 @ [inspections_per_interval cfg])"
    by (simp add: rows_with_tag_append v(2)) (simp add: rows rows_with_tag_def)
  show ?case
    apply (rule exI[of _ "v4 @ [max 0 (b1 + n1) + max 0 (b2 + n2) + max 0 (b3 + n3)]"])
    apply (rule exI[of _ "v5 @ [inspections_per_interval cfg]"])
    using r4 r5 v(3,4) n by auto
qed

lemma example_generated_log:
  "generated_log
     [\<lparr>TAGNAME = ''tag-0'', TAGVALUE = StrVal ''Batch-1'', TIMESTAMP = 10\<rparr>,
      \<lparr>TAGNAME = ''tag-1'', TAGVALUE = IntVal 5, TIMESTAMP = 11\<rparr>,
      \<lparr>TAGNAME = ''tag-2'', TAGVALUE = IntVal 7, TIMESTAMP = 11\<rparr>,
      \<lparr>TAGNAME = ''tag-3'', TAGVALUE = IntVal 4, TIMESTAMP = 11\<rparr>,
      \<lparr>TAGNAME = ''tag-4'', TAGVALUE = IntVal 16, TIMESTAMP = 11\<rparr>,
      \<lparr>TAGNAME = ''tag-5'', TAGVALUE = IntVal 500, TIMESTAMP = 11\<rparr>]"
proof -
  have "generated_log ([] @ [batch_marker ''Batch-1'' 10])"
    by (intro generated_log.marker generated_log.no_rows)
  from generated_log.interval[OF this valid_default_config generate_default_config[of 11]]
  show ?thesis by (simp add: batch_marker_def)
qed

lemma generate_default_config_noise:
  "generate_interval_data default_config (- 2, 1, 2) t =
     Inr [\<lparr>TAGNAME = ''tag-1'', TAGVALUE = IntVal 3, TIMESTAMP = t\<rparr>,
          \<lparr>TAGNAME = ''tag-2'', TAGVALUE = IntVal 8, TIMESTAMP = t\<rparr>,
          \<lparr>TAGNAME = ''tag-3'', TAGVALUE = IntVal 6, TIMESTAMP = t\<rparr>,
          \<lparr>TAGNAME = ''tag-4'', TAGVALUE = IntVal 17, TIMESTAMP = t\<rparr>,
          \<lparr>TAGNAME = ''tag-5'', TAGVALUE = IntVal 500, TIMESTAMP = t\<rparr>]"
  by (simp add: generate_interval_data_def default_config_def bind_err_def
      base_defects_500_rate_1 base_defects_500_rate_2 base_defects_500_rate_3)

lemma example_generated_log_two:
  "generated_log
     [\<lparr>TAGNAME = ''tag-0'', TAGVALUE = StrVal ''Batch-1'', TIMESTAMP = 10\<rparr>,
      \<lparr>TAGNAME = ''tag-1'', TAGVALUE = IntVal 5, TIMESTAMP = 11\<rparr>,
      \<lparr>TAGNAME = ''tag-2'', TAGVALUE = IntVal 7, TIMESTAMP = 11\<rparr>,
      \<lparr>TAGNAME = ''tag-3'', TAGVALUE = IntVal 4, TIMESTAMP = 11\<rparr>,
      \<lparr>TAGNAME = ''tag-4'', TAGVALUE = IntVal 16, TIMESTAMP = 11\<rparr>,
      \<lparr>TAGNAME = ''tag-5'', TAGVALUE = IntVal 500, TIMESTAMP = 11\<rparr>,
      \<lparr>TAGNAME = ''tag-1'', TAGVALUE = IntVal 3, TIMESTAMP = 16\<rparr>,
      \<lparr>TAGNAME = ''tag-2'', TAGVALUE = IntVal 8, TIMESTAMP = 16\<rparr>,
      \<lparr>TAGNAME = ''tag-3'', TAGVALUE = IntVal 6, TIMESTAMP = 16\<rparr>,
      \<lparr>TAGNAME = ''tag-4'', TAGVALUE = IntVal 17, TIMESTAMP = 16\<rparr>,
      \<lparr>TAGNAME = ''tag-5'', TAGVALUE = IntVal 500, TIMESTAMP = 16\<rparr>]"
  using generated_log.interval[OF example_generated_log valid_default_config
      generate_default_config_noise[of 16]]
  by simp

section \<open>The reachable session states\<close>

lemma rows_with_tag_generated:
  "rows_with_tag ''tag-4''
     [\<lparr>TAGNAME = ''tag-1'', TAGVALUE = IntVal d1, TIMESTAMP = t\<rparr>,
      \<lparr>TAGNAME = ''tag-2'', TAGVALUE = IntVal d2, TIMESTAMP = t\<rparr>,
      \<lparr>TAGNAME = ''tag-3'', TAGVALUE = IntVal d3, TIMESTAMP = t\<rparr>,
      \<lparr>TAGNAME = ''tag-4'', TAGVALUE = IntVal d4, TIMESTAMP = t\<rparr>,
      \<lparr>TAGNAME = ''tag-5'', TAGVALUE = IntVal d5, TIMESTAMP = t\<rparr>] =
     [\<lparr>TAGNAME = ''tag-4'', TAGVALUE = IntVal d4, TIMESTAMP = t\<rparr>]"
  "rows_with_tag ''tag-5''
     [\<lparr>TAGNAME = ''tag-1'', TAGVALUE = IntVal d1, TIMESTAMP = t\<rparr>,
      \<lparr>TAGNAME = ''tag-2'', TAGVALUE = IntVal d2, TIMESTAMP = t\<rparr>,
      \<lparr>TAGNAME = ''tag-3'', TAGVALUE = IntVal d3, TIMESTAMP = t\<rparr>,
      \<lparr>TAGNAME = ''tag-4'', TAGVALUE = IntVal d4, TIMESTAMP = t\<rparr>,
      \<lparr>TAGNAME = ''tag-5'', TAGVALUE = IntVal d5, TIMESTAMP = t\<rparr>] =
     [\<lparr>TAGNAME = ''tag-5'', TAGVALUE = IntVal d5, TIMESTAMP = t\<rparr>]"
  by (simp_all add: rows_with_tag_def)

lemma start_stop_button_cases:
  "start_stop_button cfg now s =
     (if streaming s then s\<lparr>streaming := False\<rparr>
      else s\<lparr>streaming := True, start_time := now,
             data := data s @ [batch_marker (batch_name cfg) now]\<rparr>)"
  by (simp add: start_stop_button_def Let_def)

lemma rows_with_tag_button:
  "tag \<noteq> ''tag-0'' \<Longrightarrow>
   rows_with_tag tag (data (start_stop_button cfg now s)) = rows_with_tag tag (data s)"
  by (simp add: start_stop_button_cases rows_with_tag_marker)

lemma cumulative_data_button:
  "cumulative_data (start_stop_button cfg now s) = cumulative_data s"
  by (simp add: start_stop_button_cases)

lemma reachable_counts:
  assumes "reachable s"
  shows "\<exists>v4 v5.
    map TAGVALUE (rows_with_tag ''tag-4'' (data s)) = map IntVal v4 \<and>
    map TAGVALUE (rows_with_tag ''tag-5'' (data s)) = map IntVal v5 \<and>
    list_all2 (\<lambda>d n. 0 \<le> d \<and> d \<le> 16 * n \<and> 100 \<le> n) v4 v5 \<and>
    cumulative_data s =
      assign_TAGVALUE (rows_with_tag ''tag-4'' (data s)) (map IntVal (running_totals v4)) @
      assign_TAGVALUE (rows_with_tag ''tag-5'' (data s)) (map IntVal (running_totals v5))"
  using assms
proof (induction rule: reachable.induct)
  case (fresh now)
  show ?case
    by (intro exI[of _ "[]"])
       (simp add: initial_state_def rows_with_tag_def assign_TAGVALUE_Nil)
next
  case (button s cfg now)
  then show ?case
    by (simp add: rows_with_tag_button cumulative_data_button)
next
  case (tick s cfg ns now s')
  from tick.IH obtain v4 v5 where v:
    "map TAGVALUE (rows_with_tag ''tag-4'' (data s)) = map IntVal v4"
    "map TAGVALUE (rows_with_tag ''tag-5'' (data s)) = map IntVal v5"
    "list_all2 (\<lambda>d n. 0 \<le> d \<and> d \<le> 16 * n \<and> 100 \<le> n) v4 v5"
    by blast
  from generate_valid_bounded[OF tick.hyps(3,4), of now] obtain d1 d2 d3 where
    g: "generate_interval_data cfg ns now =
      Inr [\<lparr>TAGNAME = ''tag-1'', TAGVALUE = IntVal d1, TIMESTAMP = now\<rparr>,
           \<lparr>TAGNAME = ''tag-2'', TAGVALUE = IntVal d2, TIMESTAMP = now\<rparr>,
           \<lparr>TAGNAME = ''tag-3'', TAGVALUE = IntVal d3, TIMESTAMP = now\<rparr>,
           \<lparr>TAGNAME = ''tag-4'', TAGVALUE = IntVal (d1 + d2 + d3), TIMESTAMP = now\<rparr>,
           \<lparr>TAGNAME = ''tag-5'', TAGVALUE = IntVal (inspections_per_interval cfg),
              TIMESTAMP = now\<rparr>]"
    and d: "0 \<le> d1 + d2 + d3" "d1 + d2 + d3 \<le> 16 * inspections_per_interval cfg"
    by blast
  have n: "100 \<le> inspections_per_interval cfg"
    using tick.hyps(3) by (simp add: valid_config_def)
  define new where "new =
          [\<lparr>TAGNAME = ''tag-1'', TAGVALUE = IntVal d1, TIMESTAMP = now\<rparr>,
           \<lparr>TAGNAME = ''tag-2'', TAGVALUE = IntVal d2, TIMESTAMP = now\<rparr>,
           \<lparr>TAGNAME = ''tag-3'', TAGVALUE = IntVal d3, TIMESTAMP = now\<rparr>,
           \<lparr>TAGNAME = ''tag-4'', TAGVALUE = IntVal (d1 + d2 + d3), TIMESTAMP = now\<rparr>,
           \<lparr>TAGNAME = ''tag-5'', TAGVALUE = IntVal (inspections_per_interval cfg),
              TIMESTAMP = now\<rparr>]"
  define s1 where "s1 = s\<lparr>data := data s @ new\<rparr>"
  define w4 where "w4 = v4 @ [d1 + d2 + d3]"
  define w5 where "w5 = v5 @ [inspections_per_interval cfg]"
  have u: "update_cumulative_data s1 = Inr s'"
    using tick.hyps(5) by (simp add: stream_tick_def g bind_err_def s1_def new_def)
  have r4: "map TAGVALUE (rows_with_tag ''tag-4'' (data s1)) = map IntVal w4"
    by (simp add: s1_def new_def w4_def rows_with_tag_append rows_with_tag_generated v(1))
  have r5: "map TAGVALUE (rows_with_tag ''tag-5'' (data s1)) = map IntVal w5"
    by (simp add: s1_def new_def w5_def rows_with_tag_append rows_with_tag_generated v(2))
  have "w4 \<noteq> []" by (simp add: w4_def)
  with update_cumulative_data_ints[OF r4 r5] u have s': "s' = s1\<lparr>cumulative_data :=
      assign_TAGVALUE (rows_with_tag ''tag-4'' (data s1)) (map IntVal (running_totals w4)) @
      assign_TAGVALUE (rows_with_tag ''tag-5'' (data s1)) (map IntVal (running_totals w5))\<rparr>"
    by simp
  have all2: "list_all2 (\<lambda>d n. 0 \<le> d \<and> d \<le> 16 * n \<and> 100 \<le> n) w4 w5"
    unfolding w4_def w5_def using v(3) d n by (simp add: list_all2_appendI)
  have ds: "data s' = data s1" by (simp add: s')
  show ?case
    apply (rule exI[of _ w4])
    apply (rule exI[of _ w5])
    using r4 r5 all2 by (simp add: ds) (simp add: s')
qed

lemma reachable_generated_log: "reachable s \<Longrightarrow> generated_log (data s)"
proof (induction rule: reachable.induct)
  case (fresh now)
  show ?case by (simp add: initial_state_def generated_log.no_rows)
next
  case (button s cfg now)
  then show ?case by (simp add: start_stop_button_cases generated_log.marker)
next
  case (tick s cfg ns now s')
  from tick.hyps(5) obtain new s1 where
    g: "generate_interval_data cfg ns now = Inr new" and
    u: "update_cumulative_data (s\<lparr>data := data s @ new\<rparr>) = Inr s1" "s1 = s'"
    unfolding stream_tick_def bind_err_def by (auto split: sum.splits)
  have "data s' = data s @ new"
    using u unfolding update_cumulative_data_def bind_err_def
    by (auto split: sum.splits if_splits)
  with generated_log.interval[OF tick.IH tick.hyps(3) g] show ?case by simp
qed

section \<open>The summary metrics in reachable states\<close>

lemma float_round_error:
  assumes "0 \<le> q" "q \<le> 2 ^ 1000"
  shows "\<exists>r. float_round q = Finite r \<and> 0 \<le> r \<and> r \<le> 2 * q + 1 \<and>
           \<bar>r - q\<bar> \<le> q * 2 powi (- 53) + 2 powi (- 1075)"
proof (cases "q = 0")
  case True
  then show ?thesis by (simp add: float_round_def)
next
  case False
  with assms have qpos: "0 < q" by simp
  define k where "k = ilog2 q"
  define e where "e = max (k - 52) (- 1074)"
  define m where "m = round_half_even (q / 2 powi e)"
  define r where "r = (of_int m :: rat) * 2 powi e"
  have epos: "(0::rat) < 2 powi e" by (rule zero_less_power_int) simp
  have kq: "2 powi k \<le> q" using ilog2_bounds[OF qpos] by (simp add: k_def)
  have ele: "(2::rat) powi e \<le> q * 2 powi (- 52) + 2 powi (- 1074)"
  proof (cases "k - 52 \<le> - 1074")
    case True
    then have "e = - 1074" by (simp add: e_def)
    moreover have "0 \<le> q * 2 powi (- 52)" using qpos by simp
    ultimately show ?thesis by simp
  next
    case False
    then have "e = k + (- 52)" by (simp add: e_def)
    moreover have "(2::rat) powi (k + (- 52)) = 2 powi k * 2 powi (- 52)"
      by (rule power_int_add) simp
    ultimately have "(2::rat) powi e = 2 powi k * 2 powi (- 52)" by (simp only:)
    also have "\<dots> \<le> q * 2 powi (- 52)" using kq by (intro mult_right_mono) simp_all
    finally show ?thesis by (simp add: add_increasing2)
  qed
  have half: "(2::rat) powi e / 2 \<le> q * 2 powi (- 53) + 2 powi (- 1075)"
  proof -
    have "(2::rat) powi (- 53) = 2 powi (- 52) / 2" "(2::rat) powi (- 1075) = 2 powi (- 1074) / 2"
      by (simp_all add: power_int_minus)
    then show ?thesis using ele by simp
  qed
  have close: "\<bar>of_int m - q / 2 powi e\<bar> \<le> 1 / 2"
    unfolding m_def by (rule round_half_even_close)
  have "\<bar>r - q\<bar> = \<bar>of_int m - q / 2 powi e\<bar> * 2 powi e"
  proof -
    have "r - q = (of_int m - q / 2 powi e) * 2 powi e"
      using epos by (simp add: r_def field_simps)
    then show ?thesis using epos by (simp add: abs_mult)
  qed
  also have "\<dots> \<le> (1 / 2) * 2 powi e"
    using close epos by (intro mult_right_mono) simp_all
  finally have err: "\<bar>r - q\<bar> \<le> q * 2 powi (- 53) + 2 powi (- 1075)"
    using half by simp
  from float_round_bounded[OF assms] obtain r' where r':
    "float_round q = Finite r'" "0 \<le> r'" "r' \<le> 2 * q + 1" by blast
  have "float_round q =
      (let e = max (k - 52) (- 1074);
           r = of_int (round_half_even (q / 2 powi e)) * 2 powi e
       in if 2 powi 1024 \<le> r then Infinite else Finite r)"
    using ilog2_bounds[OF qpos] unfolding k_def by (intro float_round_pos[OF qpos]) simp_all
  then have "float_round q = (if 2 powi 1024 \<le> r then Infinite else Finite r)"
    by (simp only: Let_def r_def m_def e_def)
  with r'(1) have "r' = r" by (simp split: if_splits)
  with r' err show ?thesis by blast
qed

lemma scaled_error_arith:
  fixes A xe z h :: rat
  assumes "A \<le> (100 * xe + h) + 100 * (z + h)" "xe \<le> z + z * (1 / 4) + h * (1 / 4)"
    and "0 \<le> z" "0 \<le> h"
  shows "A \<le> 400 * z + 128 * h"
  using assms by force

lemma scaled_rounding_error:
  fixes q x r e h :: rat
  assumes "\<bar>x - q\<bar> \<le> q * e + h" "\<bar>r - 100 * x\<bar> \<le> 100 * x * e + h"
    and "0 \<le> q" "0 \<le> e" "e \<le> 1 / 4" "0 \<le> h"
  shows "\<bar>r - 100 * q\<bar> \<le> 100 * q * (4 * e) + 128 * h"
proof -
  define z where "z = q * e"
  define xe where "xe = x * e"
  have z0: "0 \<le> z" using assms(3,4) by (simp add: z_def)
  have x: "x \<le> q + z + h" using assms(1) unfolding z_def by linarith
  have "x * e \<le> (q + z + h) * e" using x assms(4) by (rule mult_right_mono)
  also have "\<dots> = z + z * e + h * e" by (simp add: z_def algebra_simps)
  finally have xe0: "xe \<le> z + z * e + h * e" by (simp only: xe_def)
  have "z * e \<le> z * (1 / 4)" by (rule mult_left_mono[OF assms(5) z0])
  moreover have "h * e \<le> h * (1 / 4)" by (rule mult_left_mono[OF assms(5) assms(6)])
  ultimately have xe: "xe \<le> z + z * (1 / 4) + h * (1 / 4)"
    using xe0 by linarith
  define A where "A = \<bar>r - 100 * q\<bar>"
  define B where "B = \<bar>r - 100 * x\<bar>"
  define C where "C = \<bar>x - q\<bar>"
  have "r - 100 * q = (r - 100 * x) + 100 * (x - q)" by simp
  then have "\<bar>r - 100 * q\<bar> \<le> \<bar>r - 100 * x\<bar> + \<bar>100 * (x - q)\<bar>"
    by (simp only: abs_triangle_ineq)
  moreover have "\<bar>100 * (x - q)\<bar> = 100 * \<bar>x - q\<bar>"
    by (simp only: abs_mult abs_numeral)
  ultimately have t: "A \<le> B + 100 * C" by (simp only: A_def B_def C_def)
  have b: "B \<le> 100 * xe + h"
    using assms(2) by (simp add: B_def xe_def mult.assoc)
  have c: "C \<le> z + h" using assms(1) by (simp only: C_def z_def)
  have "A \<le> (100 * xe + h) + 100 * (z + h)"
    using t b c by simp
  then have "A \<le> 400 * z + 128 * h" using xe z0 assms(6) by (rule scaled_error_arith)
  then show ?thesis by (simp add: A_def z_def)
qed

lemma float_of_int_100: "float_of_int 100 = Inr 100"
proof -
  have "float_round 100 = Finite (of_int 7036874417766400 * 2 powi (- 46))"
    by (rule float_round_eqI[where k = 6]) (simp_all add: power_int_minus)
  then show ?thesis by (simp add: float_of_int_def power_int_minus)
qed

lemma map_TAGVALUE_assign:
  "length vs = length df \<Longrightarrow> map TAGVALUE (assign_TAGVALUE df vs) = vs"
proof (induction df arbitrary: vs)
  case Nil
  then show ?case by (simp add: assign_TAGVALUE_def)
next
  case (Cons r df)
  then show ?case by (cases vs) (simp_all add: assign_TAGVALUE_def)
qed

lemma last_value_single:
  assumes "rows_with_tag tag X = assign_TAGVALUE df vs" "length vs = length df" "vs \<noteq> []"
  shows "last_value X tag = Some (last vs)"
proof -
  define A where "A = assign_TAGVALUE df vs"
  have m: "map TAGVALUE A = vs" unfolding A_def using assms(2) by (rule map_TAGVALUE_assign)
  then have ne: "A \<noteq> []" using assms(3) by auto
  have "TAGVALUE (last A) = last (map TAGVALUE A)" using ne by (simp add: last_map)
  then have l: "TAGVALUE (last A) = last vs" by (simp add: m)
  show ?thesis
    using ne l assms(1) unfolding A_def[symmetric] by (cases A) (simp_all add: last_value_def)
qed

lemma last_value_cumulative:
  assumes "length w4 = length (rows_with_tag ''tag-4'' df)"
    and "length w5 = length (rows_with_tag ''tag-5'' df)"
  shows "w4 \<noteq> [] \<Longrightarrow>
         last_value (assign_TAGVALUE (rows_with_tag ''tag-4'' df) w4 @
                     assign_TAGVALUE (rows_with_tag ''tag-5'' df) w5) ''tag-4'' = Some (last w4)"
    and "w5 \<noteq> [] \<Longrightarrow>
         last_value (assign_TAGVALUE (rows_with_tag ''tag-4'' df) w4 @
                     assign_TAGVALUE (rows_with_tag ''tag-5'' df) w5) ''tag-5'' = Some (last w5)"
proof -
  assume "w4 \<noteq> []"
  then show "last_value (assign_TAGVALUE (rows_with_tag ''tag-4'' df) w4 @
                     assign_TAGVALUE (rows_with_tag ''tag-5'' df) w5) ''tag-4'' = Some (last w4)"
    using assms(1)
    by (intro last_value_single[where df = "rows_with_tag ''tag-4'' df"])
       (simp_all add: rows_with_tag_append rows_with_tag_assign)
next
  assume "w5 \<noteq> []"
  then show "last_value (assign_TAGVALUE (rows_with_tag ''tag-4'' df) w4 @
                     assign_TAGVALUE (rows_with_tag ''tag-5'' df) w5) ''tag-5'' = Some (last w5)"
    using assms(2)
    by (intro last_value_single[where df = "rows_with_tag ''tag-5'' df"])
       (simp_all add: rows_with_tag_append rows_with_tag_assign)
qed

lemma list_all2_sums:
  assumes "list_all2 (\<lambda>d n. 0 \<le> d \<and> d \<le> 16 * n \<and> 100 \<le> n) v4 (v5 :: int list)"
  shows "0 \<le> sum_list v4" "sum_list v4 \<le> 16 * sum_list v5" "v5 \<noteq> [] \<Longrightarrow> 100 \<le> sum_list v5"
    "0 \<le> sum_list v5"
  using assms by (induction rule: list_all2_induct) auto

lemma reachable_latest_totals:
  assumes "reachable s" "cumulative_data s \<noteq> []"
  shows "\<exists>d i. last_value (cumulative_data s) ''tag-4'' = Some (IntVal d) \<and>
               last_value (cumulative_data s) ''tag-5'' = Some (IntVal i) \<and>
               0 \<le> d \<and> d \<le> 16 * i \<and> 100 \<le> i"
proof -
  from reachable_counts[OF assms(1)] obtain v4 v5 where v:
    "map TAGVALUE (rows_with_tag ''tag-4'' (data s)) = map IntVal v4"
    "map TAGVALUE (rows_with_tag ''tag-5'' (data s)) = map IntVal v5"
    "list_all2 (\<lambda>d n. 0 \<le> d \<and> d \<le> 16 * n \<and> 100 \<le> n) v4 v5"
    "cumulative_data s =
      assign_TAGVALUE (rows_with_tag ''tag-4'' (data s)) (map IntVal (running_totals v4)) @
      assign_TAGVALUE (rows_with_tag ''tag-5'' (data s)) (map IntVal (running_totals v5))"
    by blast
  have l4: "length (rows_with_tag ''tag-4'' (data s)) = length v4"
    using v(1) by (metis length_map)
  have l5: "length (rows_with_tag ''tag-5'' (data s)) = length v5"
    using v(2) by (metis length_map)
  have len: "length v4 = length v5" using v(3) by (rule list_all2_lengthD)
  have "v4 \<noteq> [] \<or> v5 \<noteq> []"
    using assms(2) l4 l5 by (auto simp: v(4) assign_TAGVALUE_Nil)
  with len have ne: "v4 \<noteq> []" "v5 \<noteq> []" by auto
  have a4: "last_value (cumulative_data s) ''tag-4'' = Some (IntVal (sum_list v4))"
    unfolding v(4)
    using last_value_cumulative(1)[of "map IntVal (running_totals v4)" "data s"
        "map IntVal (running_totals v5)"] ne
    by (simp add: l4 l5 length_running_totals last_map running_totals_def)
  have a5: "last_value (cumulative_data s) ''tag-5'' = Some (IntVal (sum_list v5))"
    unfolding v(4)
    using last_value_cumulative(2)[of "map IntVal (running_totals v4)" "data s"
        "map IntVal (running_totals v5)"] ne
    by (simp add: l4 l5 length_running_totals last_map running_totals_def)
  show ?thesis using a4 a5 list_all2_sums[OF v(3)] ne by simp
qed

lemma display_metrics_totals:
  assumes "data s \<noteq> []"
    and "last_value (cumulative_data s) ''tag-4'' = Some (IntVal d)"
    and "last_value (cumulative_data s) ''tag-5'' = Some (IntVal i)"
    and "0 \<le> d" "d \<le> 16 * i" "100 \<le> i"
  shows "\<exists>x r. float_round (of_int d / of_int i) = Finite x \<and>
    float_round (100 * x) = Finite r \<and>
    display_metrics cfg s =
      Inr (Some \<lparr>total_inspected = i, total_defects = d, defect_rate = Finite r,
                 batch = batch_name cfg\<rparr>) \<and>
    \<bar>r - 100 * (of_int d / of_int i)\<bar>
      \<le> 100 * (of_int d / of_int i) * 2 powi (- 51) + 2 powi (- 1068)"
proof -
  define q :: rat where "q = of_int d / of_int i"
  have ipos: "(0::rat) < of_int i" using assms(6) by simp
  have q0: "0 \<le> q" unfolding q_def using assms(4) ipos by simp
  have "(of_int d :: rat) \<le> of_int (16 * i)" using assms(5) by (simp only: of_int_le_iff)
  then have q16: "q \<le> 16" unfolding q_def using ipos by (simp add: pos_divide_le_eq)
  then have "q \<le> 2 ^ 1000" by simp
  from float_round_error[OF q0 this] obtain x where x:
    "float_round q = Finite x" "0 \<le> x" "x \<le> 2 * q + 1"
    "\<bar>x - q\<bar> \<le> q * 2 powi (- 53) + 2 powi (- 1075)" by blast
  have "0 \<le> 100 * x" "100 * x \<le> 2 ^ 1000" using x(2,3) q16 by simp_all
  from float_round_error[OF this] obtain r where r:
    "float_round (100 * x) = Finite r"
    "\<bar>r - 100 * x\<bar> \<le> 100 * x * 2 powi (- 53) + 2 powi (- 1075)" by blast
  have cne: "cumulative_data s \<noteq> []"
    using assms(2) by (auto simp: last_value_def rows_with_tag_def)
  have inz: "i \<noteq> 0" using assms(6) by simp
  have disp: "display_metrics cfg s =
      Inr (Some \<lparr>total_inspected = i, total_defects = d, defect_rate = Finite r,
                 batch = batch_name cfg\<rparr>)"
    using assms(1) cne inz
    by (simp add: display_metrics_def assms(2,3) int_truediv_def float_times_int_def
        float_of_int_100 bind_err_def x(1)[unfolded q_def] r(1))
  have e: "(0::rat) \<le> 2 powi (- 53)" "(2::rat) powi (- 53) \<le> 1 / 4" "(0::rat) \<le> 2 powi (- 1075)"
    by (simp_all add: power_int_minus)
  have c: "4 * (2::rat) powi (- 53) = 2 powi (- 51)" "128 * (2::rat) powi (- 1075) = 2 powi (- 1068)"
    by (simp_all add: power_int_minus)
  from scaled_rounding_error[OF x(4) r(2) q0 e]
  have "\<bar>r - 100 * q\<bar> \<le> 100 * q * 2 powi (- 51) + 2 powi (- 1068)"
    by (simp only: c)
  with x(1) r(1) disp show ?thesis unfolding q_def by blast
qed

section \<open>A session with one round of streaming\<close>

lemma batch_name_default_config: "batch_name default_config = ''Batch-1''"
  by (simp add: default_config_def)

lemma example_tick:
  "stream_tick default_config (0, 0, 0) 11 (start_stop_button default_config 10 (initial_state 0)) =
     Inr \<lparr>streaming = True,
          data = [\<lparr>TAGNAME = ''tag-0'', TAGVALUE = StrVal ''Batch-1'', TIMESTAMP = 10\<rparr>,
                  \<lparr>TAGNAME = ''tag-1'', TAGVALUE = IntVal 5, TIMESTAMP = 11\<rparr>,
                  \<lparr>TAGNAME = ''tag-2'', TAGVALUE = IntVal 7, TIMESTAMP = 11\<rparr>,
                  \<lparr>TAGNAME = ''tag-3'', TAGVALUE = IntVal 4, TIMESTAMP = 11\<rparr>,
                  \<lparr>TAGNAME = ''tag-4'', TAGVALUE = IntVal 16, TIMESTAMP = 11\<rparr>,
                  \<lparr>TAGNAME = ''tag-5'', TAGVALUE = IntVal 500, TIMESTAMP = 11\<rparr>],
          start_time = 10,
          cumulative_data = [\<lparr>TAGNAME = ''tag-4'', TAGVALUE = IntVal 16, TIMESTAMP = 11\<rparr>,
                             \<lparr>TAGNAME = ''tag-5'', TAGVALUE = IntVal 500, TIMESTAMP = 11\<rparr>]\<rparr>"
  by (simp add: stream_tick_def generate_default_config bind_err_def start_stop_button_cases
      initial_state_def batch_name_default_config batch_marker_def
      update_cumulative_data_def cumulative_of_tag_def rows_with_tag_def assign_TAGVALUE_def)

lemma example_reachable:
  "reachable \<lparr>streaming = True,
          data = [\<lparr>TAGNAME = ''tag-0'', TAGVALUE = StrVal ''Batch-1'', TIMESTAMP = 10\<rparr>,
                  \<lparr>TAGNAME = ''tag-1'', TAGVALUE = IntVal 5, TIMESTAMP = 11\<rparr>,
                  \<lparr>TAGNAME = ''tag-2'', TAGVALUE = IntVal 7, TIMESTAMP = 11\<rparr>,
                  \<lparr>TAGNAME = ''tag-3'', TAGVALUE = IntVal 4, TIMESTAMP = 11\<rparr>,
                  \<lparr>TAGNAME = ''tag-4'', TAGVALUE = IntVal 16, TIMESTAMP = 11\<rparr>,
                  \<lparr>TAGNAME = ''tag-5'', TAGVALUE = IntVal 500, TIMESTAMP = 11\<rparr>],
          start_time = 10,
          cumulative_data = [\<lparr>TAGNAME = ''tag-4'', TAGVALUE = IntVal 16, TIMESTAMP = 11\<rparr>,
                             \<lparr>TAGNAME = ''tag-5'', TAGVALUE = IntVal 500, TIMESTAMP = 11\<rparr>]\<rparr>"
proof -
  have r: "reachable (start_stop_button default_config 10 (initial_state 0))"
    by (intro reachable.button reachable.fresh)
  have st: "streaming (start_stop_button default_config 10 (initial_state 0))"
    by (simp add: start_stop_button_cases initial_state_def)
  have nz: "noise_in_range (0, 0, 0)" by (simp add: noise_in_range_def)
  show ?thesis
    by (rule reachable.tick[OF r st valid_default_config nz example_tick])
qed

lemma counts_of_rows:
  assumes "map TAGVALUE rows = map IntVal vs" "\<forall>x\<in>set vs. lo \<le> x" "r \<in> set rows"
  shows "\<exists>n. TAGVALUE r = IntVal n \<and> lo \<le> n"
proof -
  from assms(3) have "TAGVALUE r \<in> set (map TAGVALUE rows)" by simp
  then have "TAGVALUE r \<in> IntVal ` set vs" by (simp only: assms(1) set_map)
  then show ?thesis using assms(2) by auto
qed


section \<open>The claims about the sample generator\<close>

text \<open>
  C1. Under a configuration within the slider ranges, for every timestamp and every
  outcome of the three noise draws, the generator returns its five rows, the three
  defect counts of tag-1, tag-2 and tag-3 are not negative, and the value of tag-4 is
  the sum of the three counts as emitted, after noise and clamping.
\<close>

theorem generated_total_is_sum_of_counts:
  assumes "valid_config cfg"
  shows "\<exists>d1 d2 d3.
    generate_interval_data cfg ns t =
      Inr [\<lparr>TAGNAME = ''tag-1'', TAGVALUE = IntVal d1, TIMESTAMP = t\<rparr>,
           \<lparr>TAGNAME = ''tag-2'', TAGVALUE = IntVal d2, TIMESTAMP = t\<rparr>,
           \<lparr>TAGNAME = ''tag-3'', TAGVALUE = IntVal d3, TIMESTAMP = t\<rparr>,
           \<lparr>TAGNAME = ''tag-4'', TAGVALUE = IntVal (d1 + d2 + d3), TIMESTAMP = t\<rparr>,
           \<lparr>TAGNAME = ''tag-5'', TAGVALUE = IntVal (inspections_per_interval cfg),
              TIMESTAMP = t\<rparr>]
    \<and> 0 \<le> d1 \<and> 0 \<le> d2 \<and> 0 \<le> d3"
proof -
  obtain n1 n2 n3 where ns: "ns = (n1, n2, n3)" by (cases ns) auto
  from generate_valid[OF assms, of n1 n2 n3 t] obtain b1 b2 b3 where
    "generate_interval_data cfg (n1, n2, n3) t =
     Inr [\<lparr>TAGNAME = ''tag-1'', TAGVALUE = IntVal (max 0 (b1 + n1)), TIMESTAMP = t\<rparr>,
          \<lparr>TAGNAME = ''tag-2'', TAGVALUE = IntVal (max 0 (b2 + n2)), TIMESTAMP = t\<rparr>,
          \<lparr>TAGNAME = ''tag-3'', TAGVALUE = IntVal (max 0 (b3 + n3)), TIMESTAMP = t\<rparr>,
          \<lparr>TAGNAME = ''tag-4'',
             TAGVALUE = IntVal (max 0 (b1 + n1) + max 0 (b2 + n2) + max 0 (b3 + n3)),
             TIMESTAMP = t\<rparr>,
          \<lparr>TAGNAME = ''tag-5'', TAGVALUE = IntVal (inspections_per_interval cfg),
             TIMESTAMP = t\<rparr>]"
    by blast
  then show ?thesis unfolding ns
    by (intro exI[of _ "max 0 (b1 + n1)"] exI[of _ "max 0 (b2 + n2)"]
        exI[of _ "max 0 (b3 + n3)"]) simp
qed

theorem generated_total_is_sum_of_counts_witness:
  "valid_config default_config \<and>
   (\<exists>d1 d2 d3.
     generate_interval_data default_config (- 2, 1, 2) 1700000000 =
       Inr [\<lparr>TAGNAME = ''tag-1'', TAGVALUE = IntVal d1, TIMESTAMP = 1700000000\<rparr>,
            \<lparr>TAGNAME = ''tag-2'', TAGVALUE = IntVal d2, TIMESTAMP = 1700000000\<rparr>,
            \<lparr>TAGNAME = ''tag-3'', TAGVALUE = IntVal d3, TIMESTAMP = 1700000000\<rparr>,
            \<lparr>TAGNAME = ''tag-4'', TAGVALUE = IntVal (d1 + d2 + d3), TIMESTAMP = 1700000000\<rparr>,
            \<lparr>TAGNAME = ''tag-5'', TAGVALUE = IntVal 500, TIMESTAMP = 1700000000\<rparr>]
     \<and> 0 \<le> d1 \<and> 0 \<le> d2 \<and> 0 \<le> d3)"
proof -
  have v: "valid_config default_config"
    by (simp add: valid_config_def default_config_def)
  have "inspections_per_interval default_config = 500" by (simp add: default_config_def)
  with generated_total_is_sum_of_counts[OF v, of "(- 2, 1, 2)" 1700000000] v
  show ?thesis by simp
qed

text \<open>
  C5. With the rates 1.0, 1.5 and 0.8, 500 inspections and the three noise draws equal
  to 0, the generator emits 5, 7 and 4 for tag-1, tag-2 and tag-3, 16 for tag-4 and 500
  for tag-5; each base value is the floor of inspections times rate over 100.
\<close>

theorem generate_scenario_default_rates:
  "generate_interval_data
     \<lparr>batch_name = name, stream_speed = speed,
      defect_rate_1 = 1, defect_rate_2 = 3 / 2,
      defect_rate_3 = 3602879701896397 / 4503599627370496,
      inspections_per_interval = 500\<rparr> (0, 0, 0) t =
     Inr [\<lparr>TAGNAME = ''tag-1'', TAGVALUE = IntVal 5, TIMESTAMP = t\<rparr>,
          \<lparr>TAGNAME = ''tag-2'', TAGVALUE = IntVal 7, TIMESTAMP = t\<rparr>,
          \<lparr>TAGNAME = ''tag-3'', TAGVALUE = IntVal 4, TIMESTAMP = t\<rparr>,
          \<lparr>TAGNAME = ''tag-4'', TAGVALUE = IntVal 16, TIMESTAMP = t\<rparr>,
          \<lparr>TAGNAME = ''tag-5'', TAGVALUE = IntVal 500, TIMESTAMP = t\<rparr>]
   \<and> float_round (4 / 5) = Finite (3602879701896397 / 4503599627370496)
   \<and> base_defects 500 1 = Inr \<lfloor>500 * 1 / 100 :: rat\<rfloor>
   \<and> base_defects 500 (3 / 2) = Inr \<lfloor>500 * (3 / 2) / 100 :: rat\<rfloor>
   \<and> base_defects 500 (3602879701896397 / 4503599627370496) = Inr \<lfloor>500 * (4 / 5) / 100 :: rat\<rfloor>"
proof -
  have "\<lfloor>15 / 2 :: rat\<rfloor> = 7" by (simp add: floor_eq_iff)
  then show ?thesis
    by (simp add: generate_interval_data_def bind_err_def float_round_0_8
        base_defects_500_rate_1 base_defects_500_rate_2 base_defects_500_rate_3)
qed

text \<open>
  C6. Whatever the configuration and the noise, when the generator returns its rows
  the only row of tag-5 is the last one and carries the configured number of
  inspections unchanged; under a configuration within the slider ranges it does
  return its rows.
\<close>

theorem inspections_passed_through:
  "(\<forall>rows. generate_interval_data cfg ns t = Inr rows \<longrightarrow>
      rows_with_tag ''tag-5'' rows =
        [\<lparr>TAGNAME = ''tag-5'', TAGVALUE = IntVal (inspections_per_interval cfg),
           TIMESTAMP = t\<rparr>]
      \<and> length rows = 5
      \<and> last rows = \<lparr>TAGNAME = ''tag-5'', TAGVALUE = IntVal (inspections_per_interval cfg),
           TIMESTAMP = t\<rparr>)
   \<and> (valid_config cfg \<longrightarrow> (\<exists>rows. generate_interval_data cfg ns t = Inr rows))"
proof (intro conjI allI impI)
  fix rows
  assume g: "generate_interval_data cfg ns t = Inr rows"
  obtain n1 n2 n3 where ns: "ns = (n1, n2, n3)" by (cases ns) auto
  from g obtain d1 d2 d3 d4 where rows: "rows =
      [\<lparr>TAGNAME = ''tag-1'', TAGVALUE = IntVal d1, TIMESTAMP = t\<rparr>,
       \<lparr>TAGNAME = ''tag-2'', TAGVALUE = IntVal d2, TIMESTAMP = t\<rparr>,
       \<lparr>TAGNAME = ''tag-3'', TAGVALUE = IntVal d3, TIMESTAMP = t\<rparr>,
       \<lparr>TAGNAME = ''tag-4'', TAGVALUE = IntVal d4, TIMESTAMP = t\<rparr>,
       \<lparr>TAGNAME = ''tag-5'', TAGVALUE = IntVal (inspections_per_interval cfg),
          TIMESTAMP = t\<rparr>]"
    unfolding generate_interval_data_def bind_err_def ns Let_def
    by (auto split: sum.splits)
  show "rows_with_tag ''tag-5'' rows =
        [\<lparr>TAGNAME = ''tag-5'', TAGVALUE = IntVal (inspections_per_interval cfg),
           TIMESTAMP = t\<rparr>]"
    unfolding rows by (simp add: rows_with_tag_def)
  show "length rows = 5" unfolding rows by simp
  show "last rows = \<lparr>TAGNAME = ''tag-5'', TAGVALUE = IntVal (inspections_per_interval cfg),
           TIMESTAMP = t\<rparr>"
    unfolding rows by simp
next
  assume "valid_config cfg"
  obtain n1 n2 n3 where ns: "ns = (n1, n2, n3)" by (cases ns) auto
  from generate_valid[OF \<open>valid_config cfg\<close>, of n1 n2 n3 t]
  show "\<exists>rows. generate_interval_data cfg ns t = Inr rows" unfolding ns by blast
qed

theorem inspections_passed_through_witness:
  "generate_interval_data default_config (0, 0, 0) 42 =
     Inr [\<lparr>TAGNAME = ''tag-1'', TAGVALUE = IntVal 5, TIMESTAMP = 42\<rparr>,
          \<lparr>TAGNAME = ''tag-2'', TAGVALUE = IntVal 7, TIMESTAMP = 42\<rparr>,
          \<lparr>TAGNAME = ''tag-3'', TAGVALUE = IntVal 4, TIMESTAMP = 42\<rparr>,
          \<lparr>TAGNAME = ''tag-4'', TAGVALUE = IntVal 16, TIMESTAMP = 42\<rparr>,
          \<lparr>TAGNAME = ''tag-5'', TAGVALUE = IntVal 500, TIMESTAMP = 42\<rparr>]
   \<and> valid_config default_config
   \<and> rows_with_tag ''tag-5''
        [\<lparr>TAGNAME = ''tag-1'', TAGVALUE = IntVal 5, TIMESTAMP = 42\<rparr>,
         \<lparr>TAGNAME = ''tag-2'', TAGVALUE = IntVal 7, TIMESTAMP = 42\<rparr>,
         \<lparr>TAGNAME = ''tag-3'', TAGVALUE = IntVal 4, TIMESTAMP = 42\<rparr>,
         \<lparr>TAGNAME = ''tag-4'', TAGVALUE = IntVal 16, TIMESTAMP = 42\<rparr>,
         \<lparr>TAGNAME = ''tag-5'', TAGVALUE = IntVal 500, TIMESTAMP = 42\<rparr>] =
       [\<lparr>TAGNAME = ''tag-5'', TAGVALUE = IntVal (inspections_per_interval default_config),
          TIMESTAMP = 42\<rparr>]
   \<and> (\<exists>rows. generate_interval_data default_config (0, 0, 0) 42 = Inr rows)"
proof -
  have g: "generate_interval_data default_config (0, 0, 0) 42 =
     Inr [\<lparr>TAGNAME = ''tag-1'', TAGVALUE = IntVal 5, TIMESTAMP = 42\<rparr>,
          \<lparr>TAGNAME = ''tag-2'', TAGVALUE = IntVal 7, TIMESTAMP = 42\<rparr>,
          \<lparr>TAGNAME = ''tag-3'', TAGVALUE = IntVal 4, TIMESTAMP = 42\<rparr>,
          \<lparr>TAGNAME = ''tag-4'', TAGVALUE = IntVal 16, TIMESTAMP = 42\<rparr>,
          \<lparr>TAGNAME = ''tag-5'', TAGVALUE = IntVal 500, TIMESTAMP = 42\<rparr>]"
    by (rule generate_default_config)
  have v: "valid_config default_config" by (rule valid_default_config)
  from inspections_passed_through[of default_config "(0, 0, 0)" 42] g v
  show ?thesis by simp
qed

section \<open>The claims about the cumulative view\<close>

text \<open>
  C2. For a log whose tag-4 and tag-5 rows carry integers, recomputing the cumulative
  data succeeds and the view of each of the two tags pairs the timestamps of the rows
  of that tag, in log order, with the prefix sums of their values; a tag without rows
  has the empty view. The stored view is the one of a fresh session or the log has a
  row of one of the two tags, as in every state the application reaches.
\<close>

theorem recompute_cumulative_prefix_sums:
  assumes "map TAGVALUE (rows_with_tag ''tag-4'' (data s)) = map IntVal v4"
    and "map TAGVALUE (rows_with_tag ''tag-5'' (data s)) = map IntVal v5"
    and "cumulative_data s = [] \<or> v4 \<noteq> [] \<or> v5 \<noteq> []"
  shows "\<exists>s'. update_cumulative_data s = Inr s' \<and> data s' = data s \<and>
    cumulative_view ''tag-4'' s' =
      zip (map TIMESTAMP (rows_with_tag ''tag-4'' (data s))) (map IntVal (running_totals v4)) \<and>
    cumulative_view ''tag-5'' s' =
      zip (map TIMESTAMP (rows_with_tag ''tag-5'' (data s))) (map IntVal (running_totals v5)) \<and>
    (rows_with_tag ''tag-4'' (data s) = [] \<longrightarrow> cumulative_view ''tag-4'' s' = []) \<and>
    (rows_with_tag ''tag-5'' (data s) = [] \<longrightarrow> cumulative_view ''tag-5'' s' = [])"
proof (cases "v4 = [] \<and> v5 = []")
  case True
  with assms(3) have fresh: "cumulative_data s = []" by simp
  have "update_cumulative_data s = Inr s"
    using update_cumulative_data_ints[OF assms(1,2)] True by simp
  moreover have "cumulative_view tag s = []" for tag
    by (simp add: cumulative_view_def fresh rows_with_tag_def)
  ultimately show ?thesis using True by (simp add: running_totals_Nil)
next
  case False
  define s' where "s' = s\<lparr>cumulative_data :=
      assign_TAGVALUE (rows_with_tag ''tag-4'' (data s)) (map IntVal (running_totals v4)) @
      assign_TAGVALUE (rows_with_tag ''tag-5'' (data s)) (map IntVal (running_totals v5))\<rparr>"
  have u: "update_cumulative_data s = Inr s'"
    using update_cumulative_data_ints[OF assms(1,2)] False by (simp add: s'_def)
  have v4: "cumulative_view ''tag-4'' s' =
      zip (map TIMESTAMP (rows_with_tag ''tag-4'' (data s))) (map IntVal (running_totals v4))"
    unfolding s'_def by (simp add: cumulative_view_update)
  have v5: "cumulative_view ''tag-5'' s' =
      zip (map TIMESTAMP (rows_with_tag ''tag-5'' (data s))) (map IntVal (running_totals v5))"
    unfolding s'_def by (simp add: cumulative_view_update)
  have "data s' = data s" by (simp add: s'_def)
  with u v4 v5 show ?thesis by simp
qed

theorem recompute_cumulative_prefix_sums_witness:
  "map TAGVALUE (rows_with_tag ''tag-4'' (data
      \<lparr>streaming = True,
       data = [\<lparr>TAGNAME = ''tag-0'', TAGVALUE = StrVal ''Batch-1'', TIMESTAMP = 10\<rparr>,
               \<lparr>TAGNAME = ''tag-4'', TAGVALUE = IntVal 16, TIMESTAMP = 11\<rparr>,
               \<lparr>TAGNAME = ''tag-5'', TAGVALUE = IntVal 500, TIMESTAMP = 11\<rparr>,
               \<lparr>TAGNAME = ''tag-4'', TAGVALUE = IntVal 14, TIMESTAMP = 16\<rparr>,
               \<lparr>TAGNAME = ''tag-5'', TAGVALUE = IntVal 500, TIMESTAMP = 16\<rparr>],
       start_time = 10, cumulative_data = []\<rparr>)) = map IntVal [16, 14]
   \<and> (\<exists>s'. update_cumulative_data
      \<lparr>streaming = True,
       data = [\<lparr>TAGNAME = ''tag-0'', TAGVALUE = StrVal ''Batch-1'', TIMESTAMP = 10\<rparr>,
               \<lparr>TAGNAME = ''tag-4'', TAGVALUE = IntVal 16, TIMESTAMP = 11\<rparr>,
               \<lparr>TAGNAME = ''tag-5'', TAGVALUE = IntVal 500, TIMESTAMP = 11\<rparr>,
               \<lparr>TAGNAME = ''tag-4'', TAGVALUE = IntVal 14, TIMESTAMP = 16\<rparr>,
               \<lparr>TAGNAME = ''tag-5'', TAGVALUE = IntVal 500, TIMESTAMP = 16\<rparr>],
       start_time = 10, cumulative_data = []\<rparr> = Inr s'
     \<and> cumulative_view ''tag-4'' s' = [(11, IntVal 16), (16, IntVal 30)]
     \<and> cumulative_view ''tag-5'' s' = [(11, IntVal 500), (16, IntVal 1000)])"
proof -
  have rt: "running_totals [16, 14] = [16, 30]" "running_totals [500, 500] = [500, 1000]"
    by (simp_all add: running_totals_Cons running_totals_Nil)
  show ?thesis
    using recompute_cumulative_prefix_sums[of
      "\<lparr>streaming = True,
       data = [\<lparr>TAGNAME = ''tag-0'', TAGVALUE = StrVal ''Batch-1'', TIMESTAMP = 10\<rparr>,
               \<lparr>TAGNAME = ''tag-4'', TAGVALUE = IntVal 16, TIMESTAMP = 11\<rparr>,
               \<lparr>TAGNAME = ''tag-5'', TAGVALUE = IntVal 500, TIMESTAMP = 11\<rparr>,
               \<lparr>TAGNAME = ''tag-4'', TAGVALUE = IntVal 14, TIMESTAMP = 16\<rparr>,
               \<lparr>TAGNAME = ''tag-5'', TAGVALUE = IntVal 500, TIMESTAMP = 16\<rparr>],
       start_time = 10, cumulative_data = []\<rparr>" "[16, 14]" "[500, 500]"]
    by (simp add: rows_with_tag_def rt) blast
qed

text \<open>
  C9. Recomputing the cumulative data a second time, with nothing appended to the log
  in between, changes nothing: the second call returns the state the first one left.
\<close>

theorem recompute_cumulative_idempotent:
  assumes "update_cumulative_data s = Inr s'"
  shows "update_cumulative_data s' = Inr s'"
proof -
  from assms obtain frames4 frames where
    c4: "cumulative_of_tag (data s) ''tag-4'' [] = Inr frames4" and
    c5: "cumulative_of_tag (data s) ''tag-5'' frames4 = Inr frames" and
    s': "s' = (if frames \<noteq> [] then s\<lparr>cumulative_data := concat frames\<rparr> else s)"
    unfolding update_cumulative_data_def bind_err_def
    by (auto split: sum.splits if_splits)
  have d: "data s' = data s" by (simp add: s')
  show ?thesis
  proof (cases "frames = []")
    case True
    then show ?thesis
      using c4 c5 s' by (simp add: update_cumulative_data_def bind_err_def)
  next
    case False
    then have "cumulative_data s' = concat frames" by (simp add: s')
    then have "s'\<lparr>cumulative_data := concat frames\<rparr> = s'" by simp
    then show ?thesis
      using False c4 c5 by (simp add: update_cumulative_data_def bind_err_def d)
  qed
qed

theorem recompute_cumulative_idempotent_witness:
  "update_cumulative_data
     \<lparr>streaming = True,
      data = [\<lparr>TAGNAME = ''tag-0'', TAGVALUE = StrVal ''Batch-1'', TIMESTAMP = 10\<rparr>,
              \<lparr>TAGNAME = ''tag-4'', TAGVALUE = IntVal 16, TIMESTAMP = 11\<rparr>,
              \<lparr>TAGNAME = ''tag-5'', TAGVALUE = IntVal 500, TIMESTAMP = 11\<rparr>],
      start_time = 10, cumulative_data = []\<rparr> =
   Inr \<lparr>streaming = True,
      data = [\<lparr>TAGNAME = ''tag-0'', TAGVALUE = StrVal ''Batch-1'', TIMESTAMP = 10\<rparr>,
              \<lparr>TAGNAME = ''tag-4'', TAGVALUE = IntVal 16, TIMESTAMP = 11\<rparr>,
              \<lparr>TAGNAME = ''tag-5'', TAGVALUE = IntVal 500, TIMESTAMP = 11\<rparr>],
      start_time = 10,
      cumulative_data = [\<lparr>TAGNAME = ''tag-4'', TAGVALUE = IntVal 16, TIMESTAMP = 11\<rparr>,
                         \<lparr>TAGNAME = ''tag-5'', TAGVALUE = IntVal 500, TIMESTAMP = 11\<rparr>]\<rparr>
   \<and> update_cumulative_data
     \<lparr>streaming = True,
      data = [\<lparr>TAGNAME = ''tag-0'', TAGVALUE = StrVal ''Batch-1'', TIMESTAMP = 10\<rparr>,
              \<lparr>TAGNAME = ''tag-4'', TAGVALUE = IntVal 16, TIMESTAMP = 11\<rparr>,
              \<lparr>TAGNAME = ''tag-5'', TAGVALUE = IntVal 500, TIMESTAMP = 11\<rparr>],
      start_time = 10,
      cumulative_data = [\<lparr>TAGNAME = ''tag-4'', TAGVALUE = IntVal 16, TIMESTAMP = 11\<rparr>,
                         \<lparr>TAGNAME = ''tag-5'', TAGVALUE = IntVal 500, TIMESTAMP = 11\<rparr>]\<rparr> =
   Inr \<lparr>streaming = True,
      data = [\<lparr>TAGNAME = ''tag-0'', TAGVALUE = StrVal ''Batch-1'', TIMESTAMP = 10\<rparr>,
              \<lparr>TAGNAME = ''tag-4'', TAGVALUE = IntVal 16, TIMESTAMP = 11\<rparr>,
              \<lparr>TAGNAME = ''tag-5'', TAGVALUE = IntVal 500, TIMESTAMP = 11\<rparr>],
      start_time = 10,
      cumulative_data = [\<lparr>TAGNAME = ''tag-4'', TAGVALUE = IntVal 16, TIMESTAMP = 11\<rparr>,
                         \<lparr>TAGNAME = ''tag-5'', TAGVALUE = IntVal 500, TIMESTAMP = 11\<rparr>]\<rparr>"
proof -
  have first: "update_cumulative_data
     \<lparr>streaming = True,
      data = [\<lparr>TAGNAME = ''tag-0'', TAGVALUE = StrVal ''Batch-1'', TIMESTAMP = 10\<rparr>,
              \<lparr>TAGNAME = ''tag-4'', TAGVALUE = IntVal 16, TIMESTAMP = 11\<rparr>,
              \<lparr>TAGNAME = ''tag-5'', TAGVALUE = IntVal 500, TIMESTAMP = 11\<rparr>],
      start_time = 10, cumulative_data = []\<rparr> =
   Inr \<lparr>streaming = True,
      data = [\<lparr>TAGNAME = ''tag-0'', TAGVALUE = StrVal ''Batch-1'', TIMESTAMP = 10\<rparr>,
              \<lparr>TAGNAME = ''tag-4'', TAGVALUE = IntVal 16, TIMESTAMP = 11\<rparr>,
              \<lparr>TAGNAME = ''tag-5'', TAGVALUE = IntVal 500, TIMESTAMP = 11\<rparr>],
      start_time = 10,
      cumulative_data = [\<lparr>TAGNAME = ''tag-4'', TAGVALUE = IntVal 16, TIMESTAMP = 11\<rparr>,
                         \<lparr>TAGNAME = ''tag-5'', TAGVALUE = IntVal 500, TIMESTAMP = 11\<rparr>]\<rparr>"
    by (simp add: update_cumulative_data_def cumulative_of_tag_def rows_with_tag_def
        bind_err_def assign_TAGVALUE_def)
  from recompute_cumulative_idempotent[OF first] first show ?thesis by simp
qed

text \<open>
  C10. When the log holds no row of tag-4 and none of tag-5 (it is empty, or holds
  batch markers only), recomputing the cumulative data leaves the session state as it
  is: the stored cumulative view is neither cleared nor overwritten, and a view that
  was empty is empty afterwards.
\<close>

theorem recompute_cumulative_frame:
  assumes "\<forall>r\<in>set (data s). TAGNAME r \<noteq> ''tag-4'' \<and> TAGNAME r \<noteq> ''tag-5''"
  shows "update_cumulative_data s = Inr s \<and>
    (\<forall>s'. update_cumulative_data s = Inr s' \<longrightarrow>
       cumulative_data s' = cumulative_data s \<and>
       (cumulative_data s = [] \<longrightarrow> cumulative_data s' = []))"
proof -
  have "rows_with_tag ''tag-4'' (data s) = []" "rows_with_tag ''tag-5'' (data s) = []"
    using assms by (simp_all add: rows_with_tag_def filter_empty_conv)
  then have "update_cumulative_data s = Inr s"
    by (simp add: update_cumulative_data_def cumulative_of_tag_def bind_err_def)
  then show ?thesis by simp
qed

theorem recompute_cumulative_frame_witness:
  "update_cumulative_data \<lparr>streaming = False,
        data = [\<lparr>TAGNAME = ''tag-0'', TAGVALUE = StrVal ''Batch-1'', TIMESTAMP = 10\<rparr>],
        start_time = 10,
        cumulative_data = [\<lparr>TAGNAME = ''tag-4'', TAGVALUE = IntVal 16, TIMESTAMP = 3\<rparr>]\<rparr>
     = Inr \<lparr>streaming = False,
        data = [\<lparr>TAGNAME = ''tag-0'', TAGVALUE = StrVal ''Batch-1'', TIMESTAMP = 10\<rparr>],
        start_time = 10,
        cumulative_data = [\<lparr>TAGNAME = ''tag-4'', TAGVALUE = IntVal 16, TIMESTAMP = 3\<rparr>]\<rparr>
   \<and> update_cumulative_data (initial_state 0) = Inr (initial_state 0)
   \<and> cumulative_data (initial_state 0) = []"
proof -
  have a: "\<forall>r\<in>set (data \<lparr>streaming = False,
        data = [\<lparr>TAGNAME = ''tag-0'', TAGVALUE = StrVal ''Batch-1'', TIMESTAMP = 10\<rparr>],
        start_time = 10,
        cumulative_data = [\<lparr>TAGNAME = ''tag-4'', TAGVALUE = IntVal 16, TIMESTAMP = 3\<rparr>]\<rparr>).
      TAGNAME r \<noteq> ''tag-4'' \<and> TAGNAME r \<noteq> ''tag-5''"
    by simp
  have b: "\<forall>r\<in>set (data (initial_state 0)). TAGNAME r \<noteq> ''tag-4'' \<and> TAGNAME r \<noteq> ''tag-5''"
    by (simp add: initial_state_def)
  from recompute_cumulative_frame[OF a] recompute_cumulative_frame[OF b]
  show ?thesis by (simp add: initial_state_def)
qed

text \<open>
  C7. For a log built by appending batch markers and generator output, recomputing
  the cumulative data succeeds, and the running totals of the view of tag-4 and of the
  view of tag-5 never decrease along the view, the generated values of both tags being
  integers that are not negative. The stored view is the one of a fresh session or
  the log has a row of one of the two tags.
\<close>

theorem cumulative_view_nondecreasing:
  assumes "generated_log (data s)"
    and "cumulative_data s = [] \<or> rows_with_tag ''tag-4'' (data s) \<noteq> []
         \<or> rows_with_tag ''tag-5'' (data s) \<noteq> []"
  shows "(\<exists>s' totals4 totals5. update_cumulative_data s = Inr s' \<and>
    map snd (cumulative_view ''tag-4'' s') = map IntVal totals4 \<and> sorted totals4 \<and>
    map snd (cumulative_view ''tag-5'' s') = map IntVal totals5 \<and> sorted totals5) \<and>
    (\<forall>r\<in>set (rows_with_tag ''tag-4'' (data s) @ rows_with_tag ''tag-5'' (data s)).
       \<exists>n. TAGVALUE r = IntVal n \<and> 0 \<le> n)"
proof -
  from generated_log_counts[OF assms(1)] obtain v4 v5 where v:
    "map TAGVALUE (rows_with_tag ''tag-4'' (data s)) = map IntVal v4"
    "map TAGVALUE (rows_with_tag ''tag-5'' (data s)) = map IntVal v5"
    "\<forall>x\<in>set v4. 0 \<le> x" "\<forall>x\<in>set v5. 100 \<le> x"
    by blast
  have l4: "length (rows_with_tag ''tag-4'' (data s)) = length v4"
    using v(1) by (metis length_map)
  have l5: "length (rows_with_tag ''tag-5'' (data s)) = length v5"
    using v(2) by (metis length_map)
  have fresh: "cumulative_data s = [] \<or> v4 \<noteq> [] \<or> v5 \<noteq> []"
    using assms(2) l4 l5 by auto
  have "\<forall>x\<in>set v5. 0 \<le> x" using v(4) by auto
  then have sorted: "sorted (running_totals v4)" "sorted (running_totals v5)"
    using v(3) by (simp_all add: sorted_running_totals)
  have nonneg: "\<forall>r\<in>set (rows_with_tag ''tag-4'' (data s) @ rows_with_tag ''tag-5'' (data s)).
       \<exists>n. TAGVALUE r = IntVal n \<and> 0 \<le> n"
    using counts_of_rows[OF v(1) v(3)] counts_of_rows[OF v(2) \<open>\<forall>x\<in>set v5. 0 \<le> x\<close>]
    by auto
  have "\<exists>s' totals4 totals5. update_cumulative_data s = Inr s' \<and>
    map snd (cumulative_view ''tag-4'' s') = map IntVal totals4 \<and> sorted totals4 \<and>
    map snd (cumulative_view ''tag-5'' s') = map IntVal totals5 \<and> sorted totals5"
  proof (cases "v4 = [] \<and> v5 = []")
    case True
    with fresh have "cumulative_data s = []" by simp
    then have "cumulative_view tag s = []" for tag
      by (simp add: cumulative_view_def rows_with_tag_def)
    moreover have "update_cumulative_data s = Inr s"
      using update_cumulative_data_ints[OF v(1,2)] True by simp
    ultimately show ?thesis
      by (intro exI[of _ s] exI[of _ "[]"]) simp
  next
    case False
    define s' where "s' = s\<lparr>cumulative_data :=
      assign_TAGVALUE (rows_with_tag ''tag-4'' (data s)) (map IntVal (running_totals v4)) @
      assign_TAGVALUE (rows_with_tag ''tag-5'' (data s)) (map IntVal (running_totals v5))\<rparr>"
    have u: "update_cumulative_data s = Inr s'"
      using update_cumulative_data_ints[OF v(1,2)] False by (simp add: s'_def)
    have "map snd (cumulative_view ''tag-4'' s') = map IntVal (running_totals v4)"
      unfolding s'_def by (simp add: cumulative_view_update l4 length_running_totals)
    moreover have "map snd (cumulative_view ''tag-5'' s') = map IntVal (running_totals v5)"
      unfolding s'_def by (simp add: cumulative_view_update l5 length_running_totals)
    ultimately show ?thesis using u sorted by blast
  qed
  with nonneg show ?thesis by blast
qed

theorem cumulative_view_nondecreasing_witness:
  "generated_log (data
     \<lparr>streaming = True,
      data = [\<lparr>TAGNAME = ''tag-0'', TAGVALUE = StrVal ''Batch-1'', TIMESTAMP = 10\<rparr>,
              \<lparr>TAGNAME = ''tag-1'', TAGVALUE = IntVal 5, TIMESTAMP = 11\<rparr>,
              \<lparr>TAGNAME = ''tag-2'', TAGVALUE = IntVal 7, TIMESTAMP = 11\<rparr>,
              \<lparr>TAGNAME = ''tag-3'', TAGVALUE = IntVal 4, TIMESTAMP = 11\<rparr>,
              \<lparr>TAGNAME = ''tag-4'', TAGVALUE = IntVal 16, TIMESTAMP = 11\<rparr>,
              \<lparr>TAGNAME = ''tag-5'', TAGVALUE = IntVal 500, TIMESTAMP = 11\<rparr>,
              \<lparr>TAGNAME = ''tag-1'', TAGVALUE = IntVal 3, TIMESTAMP = 16\<rparr>,
              \<lparr>TAGNAME = ''tag-2'', TAGVALUE = IntVal 8, TIMESTAMP = 16\<rparr>,
              \<lparr>TAGNAME = ''tag-3'', TAGVALUE = IntVal 6, TIMESTAMP = 16\<rparr>,
              \<lparr>TAGNAME = ''tag-4'', TAGVALUE = IntVal 17, TIMESTAMP = 16\<rparr>,
              \<lparr>TAGNAME = ''tag-5'', TAGVALUE = IntVal 500, TIMESTAMP = 16\<rparr>],
      start_time = 10,
      cumulative_data = [\<lparr>TAGNAME = ''tag-4'', TAGVALUE = IntVal 16, TIMESTAMP = 11\<rparr>,
                         \<lparr>TAGNAME = ''tag-5'', TAGVALUE = IntVal 500, TIMESTAMP = 11\<rparr>]\<rparr>)
   \<and> (\<exists>s'. update_cumulative_data
     \<lparr>streaming = True,
      data = [\<lparr>TAGNAME = ''tag-0'', TAGVALUE = StrVal ''Batch-1'', TIMESTAMP = 10\<rparr>,
              \<lparr>TAGNAME = ''tag-1'', TAGVALUE = IntVal 5, TIMESTAMP = 11\<rparr>,
              \<lparr>TAGNAME = ''tag-2'', TAGVALUE = IntVal 7, TIMESTAMP = 11\<rparr>,
              \<lparr>TAGNAME = ''tag-3'', TAGVALUE = IntVal 4, TIMESTAMP = 11\<rparr>,
              \<lparr>TAGNAME = ''tag-4'', TAGVALUE = IntVal 16, TIMESTAMP = 11\<rparr>,
              \<lparr>TAGNAME = ''tag-5'', TAGVALUE = IntVal 500, TIMESTAMP = 11\<rparr>,
              \<lparr>TAGNAME = ''tag-1'', TAGVALUE = IntVal 3, TIMESTAMP = 16\<rparr>,
              \<lparr>TAGNAME = ''tag-2'', TAGVALUE = IntVal 8, TIMESTAMP = 16\<rparr>,
              \<lparr>TAGNAME = ''tag-3'', TAGVALUE = IntVal 6, TIMESTAMP = 16\<rparr>,
              \<lparr>TAGNAME = ''tag-4'', TAGVALUE = IntVal 17, TIMESTAMP = 16\<rparr>,
              \<lparr>TAGNAME = ''tag-5'', TAGVALUE = IntVal 500, TIMESTAMP = 16\<rparr>],
      start_time = 10,
      cumulative_data = [\<lparr>TAGNAME = ''tag-4'', TAGVALUE = IntVal 16, TIMESTAMP = 11\<rparr>,
                         \<lparr>TAGNAME = ''tag-5'', TAGVALUE = IntVal 500, TIMESTAMP = 11\<rparr>]\<rparr> = Inr s' \<and>
    cumulative_view ''tag-4'' s' = [(11, IntVal 16), (16, IntVal 33)] \<and>
    cumulative_view ''tag-5'' s' = [(11, IntVal 500), (16, IntVal 1000)] \<and>
    map snd (cumulative_view ''tag-4'' s') = map IntVal [16, 33] \<and> sorted [16, 33 :: int] \<and>
    map snd (cumulative_view ''tag-5'' s') = map IntVal [500, 1000] \<and> sorted [500, 1000 :: int])"
proof -
  let ?s = "\<lparr>streaming = True,
      data = [\<lparr>TAGNAME = ''tag-0'', TAGVALUE = StrVal ''Batch-1'', TIMESTAMP = 10\<rparr>,
              \<lparr>TAGNAME = ''tag-1'', TAGVALUE = IntVal 5, TIMESTAMP = 11\<rparr>,
              \<lparr>TAGNAME = ''tag-2'', TAGVALUE = IntVal 7, TIMESTAMP = 11\<rparr>,
              \<lparr>TAGNAME = ''tag-3'', TAGVALUE = IntVal 4, TIMESTAMP = 11\<rparr>,
              \<lparr>TAGNAME = ''tag-4'', TAGVALUE = IntVal 16, TIMESTAMP = 11\<rparr>,
              \<lparr>TAGNAME = ''tag-5'', TAGVALUE = IntVal 500, TIMESTAMP = 11\<rparr>,
              \<lparr>TAGNAME = ''tag-1'', TAGVALUE = IntVal 3, TIMESTAMP = 16\<rparr>,
              \<lparr>TAGNAME = ''tag-2'', TAGVALUE = IntVal 8, TIMESTAMP = 16\<rparr>,
              \<lparr>TAGNAME = ''tag-3'', TAGVALUE = IntVal 6, TIMESTAMP = 16\<rparr>,
              \<lparr>TAGNAME = ''tag-4'', TAGVALUE = IntVal 17, TIMESTAMP = 16\<rparr>,
              \<lparr>TAGNAME = ''tag-5'', TAGVALUE = IntVal 500, TIMESTAMP = 16\<rparr>],
      start_time = 10,
      cumulative_data = [\<lparr>TAGNAME = ''tag-4'', TAGVALUE = IntVal 16, TIMESTAMP = 11\<rparr>,
                         \<lparr>TAGNAME = ''tag-5'', TAGVALUE = IntVal 500, TIMESTAMP = 11\<rparr>]\<rparr>"
  have g: "generated_log (data ?s)" using example_generated_log_two by simp
  have h: "cumulative_data ?s = [] \<or> rows_with_tag ''tag-4'' (data ?s) \<noteq> []
         \<or> rows_with_tag ''tag-5'' (data ?s) \<noteq> []"
    by (simp add: rows_with_tag_def)
  from cumulative_view_nondecreasing[OF g h] obtain s' totals4 totals5 where r:
    "update_cumulative_data ?s = Inr s'"
    "map snd (cumulative_view ''tag-4'' s') = map IntVal totals4" "sorted totals4"
    "map snd (cumulative_view ''tag-5'' s') = map IntVal totals5" "sorted totals5"
    by blast
  have u: "update_cumulative_data ?s = Inr (?s\<lparr>cumulative_data :=
      [\<lparr>TAGNAME = ''tag-4'', TAGVALUE = IntVal 16, TIMESTAMP = 11\<rparr>,
       \<lparr>TAGNAME = ''tag-4'', TAGVALUE = IntVal 33, TIMESTAMP = 16\<rparr>,
       \<lparr>TAGNAME = ''tag-5'', TAGVALUE = IntVal 500, TIMESTAMP = 11\<rparr>,
       \<lparr>TAGNAME = ''tag-5'', TAGVALUE = IntVal 1000, TIMESTAMP = 16\<rparr>]\<rparr>)"
    by (simp add: update_cumulative_data_def cumulative_of_tag_def rows_with_tag_def
        bind_err_def assign_TAGVALUE_def)
  from r(1) u have s': "s' = ?s\<lparr>cumulative_data :=
      [\<lparr>TAGNAME = ''tag-4'', TAGVALUE = IntVal 16, TIMESTAMP = 11\<rparr>,
       \<lparr>TAGNAME = ''tag-4'', TAGVALUE = IntVal 33, TIMESTAMP = 16\<rparr>,
       \<lparr>TAGNAME = ''tag-5'', TAGVALUE = IntVal 500, TIMESTAMP = 11\<rparr>,
       \<lparr>TAGNAME = ''tag-5'', TAGVALUE = IntVal 1000, TIMESTAMP = 16\<rparr>]\<rparr>"
    by simp
  have v4: "cumulative_view ''tag-4'' s' = [(11, IntVal 16), (16, IntVal 33)]"
    unfolding s' by (simp add: cumulative_view_def rows_with_tag_def)
  have v5: "cumulative_view ''tag-5'' s' = [(11, IntVal 500), (16, IntVal 1000)]"
    unfolding s' by (simp add: cumulative_view_def rows_with_tag_def)
  from r(2) v4 have t4: "totals4 = [16, 33]" by auto
  from r(4) v5 have t5: "totals5 = [500, 1000]" by auto
  from g r(1) v4 v5 r(2,3)[unfolded t4] r(4,5)[unfolded t5] show ?thesis by blast
qed

section \<open>The claim about the summary metrics\<close>

text \<open>
  C3, as stated, fails with zero appended samples: the guard of the metric block shows
  nothing at all, so no total of 0 inspections is reported.
\<close>

theorem metrics_without_samples_counterexample:
  "data (initial_state 0) = [] \<and>
   update_cumulative_data (initial_state 0) = Inr (initial_state 0) \<and>
   display_metrics default_config (initial_state 0) = Inr None"
  by (simp add: initial_state_def display_metrics_def update_cumulative_data_def
      cumulative_of_tag_def rows_with_tag_def bind_err_def)

text \<open>
  C3, amended. When the log or the cumulative view is empty the metric block shows
  nothing, neither a total nor a rate. In every state the application reaches the block
  never raises a division by zero; and when log and view are not empty it shows the
  latest cumulative value of tag-5 as total inspected, at least 100, the latest
  cumulative value of tag-4 as total defects, and as defect rate the double-precision
  value of (total defects / total inspected) * 100, quotient first, which is
  100 * total defects / total inspected up to a relative rounding error of
  \<open>2\<^sup>-\<^sup>5\<^sup>1\<close>.
\<close>

theorem metrics_displayed:
  "((data s = [] \<or> cumulative_data s = []) \<longrightarrow> display_metrics cfg s = Inr None)
   \<and> (reachable s \<longrightarrow> display_metrics cfg s \<noteq> Inl ZeroDivisionError)
   \<and> (reachable s \<longrightarrow> data s \<noteq> [] \<longrightarrow> cumulative_data s \<noteq> [] \<longrightarrow>
        (\<exists>d i x r.
           last_value (cumulative_data s) ''tag-4'' = Some (IntVal d) \<and>
           last_value (cumulative_data s) ''tag-5'' = Some (IntVal i) \<and>
           0 \<le> d \<and> 100 \<le> i \<and>
           float_round (of_int d / of_int i) = Finite x \<and>
           float_round (100 * x) = Finite r \<and>
           display_metrics cfg s =
             Inr (Some \<lparr>total_inspected = i, total_defects = d, defect_rate = Finite r,
                        batch = batch_name cfg\<rparr>) \<and>
           \<bar>r - 100 * (of_int d / of_int i)\<bar>
             \<le> 100 * (of_int d / of_int i) * 2 powi (- 51) + 2 powi (- 1068)))"
proof (intro conjI impI)
  assume "data s = [] \<or> cumulative_data s = []"
  then show "display_metrics cfg s = Inr None"
    by (auto simp: display_metrics_def)
next
  assume r: "reachable s"
  show "display_metrics cfg s \<noteq> Inl ZeroDivisionError"
  proof (cases "data s \<noteq> [] \<and> cumulative_data s \<noteq> []")
    case True
    from reachable_latest_totals[OF r] True obtain d i where t:
      "last_value (cumulative_data s) ''tag-4'' = Some (IntVal d)"
      "last_value (cumulative_data s) ''tag-5'' = Some (IntVal i)"
      "0 \<le> d" "d \<le> 16 * i" "100 \<le> i" by blast
    from display_metrics_totals[OF _ t, of cfg] True show ?thesis by auto
  next
    case False
    then show ?thesis by (auto simp: display_metrics_def)
  qed
next
  assume r: "reachable s" and ne: "data s \<noteq> []" "cumulative_data s \<noteq> []"
  from reachable_latest_totals[OF r ne(2)] obtain d i where t:
    "last_value (cumulative_data s) ''tag-4'' = Some (IntVal d)"
    "last_value (cumulative_data s) ''tag-5'' = Some (IntVal i)"
    "0 \<le> d" "d \<le> 16 * i" "100 \<le> i" by blast
  from display_metrics_totals[OF ne(1) t, of cfg] t
  show "\<exists>d i x r.
           last_value (cumulative_data s) ''tag-4'' = Some (IntVal d) \<and>
           last_value (cumulative_data s) ''tag-5'' = Some (IntVal i) \<and>
           0 \<le> d \<and> 100 \<le> i \<and>
           float_round (of_int d / of_int i) = Finite x \<and>
           float_round (100 * x) = Finite r \<and>
           display_metrics cfg s =
             Inr (Some \<lparr>total_inspected = i, total_defects = d, defect_rate = Finite r,
                        batch = batch_name cfg\<rparr>) \<and>
           \<bar>r - 100 * (of_int d / of_int i)\<bar>
             \<le> 100 * (of_int d / of_int i) * 2 powi (- 51) + 2 powi (- 1068)"
    by blast
qed

theorem metrics_displayed_witness:
  "display_metrics default_config (initial_state 0) = Inr None
   \<and> display_metrics default_config
       \<lparr>streaming = True,
        data = [\<lparr>TAGNAME = ''tag-0'', TAGVALUE = StrVal ''Batch-1'', TIMESTAMP = 10\<rparr>,
                \<lparr>TAGNAME = ''tag-1'', TAGVALUE = IntVal 5, TIMESTAMP = 11\<rparr>,
                \<lparr>TAGNAME = ''tag-2'', TAGVALUE = IntVal 7, TIMESTAMP = 11\<rparr>,
                \<lparr>TAGNAME = ''tag-3'', TAGVALUE = IntVal 4, TIMESTAMP = 11\<rparr>,
                \<lparr>TAGNAME = ''tag-4'', TAGVALUE = IntVal 16, TIMESTAMP = 11\<rparr>,
                \<lparr>TAGNAME = ''tag-5'', TAGVALUE = IntVal 500, TIMESTAMP = 11\<rparr>],
        start_time = 10,
        cumulative_data = [\<lparr>TAGNAME = ''tag-4'', TAGVALUE = IntVal 16, TIMESTAMP = 11\<rparr>,
                           \<lparr>TAGNAME = ''tag-5'', TAGVALUE = IntVal 500, TIMESTAMP = 11\<rparr>]\<rparr>
       \<noteq> Inl ZeroDivisionError
   \<and> (\<exists>x r.
         float_round (16 / 500) = Finite x \<and> float_round (100 * x) = Finite r \<and>
         display_metrics default_config
           \<lparr>streaming = True,
            data = [\<lparr>TAGNAME = ''tag-0'', TAGVALUE = StrVal ''Batch-1'', TIMESTAMP = 10\<rparr>,
                    \<lparr>TAGNAME = ''tag-1'', TAGVALUE = IntVal 5, TIMESTAMP = 11\<rparr>,
                    \<lparr>TAGNAME = ''tag-2'', TAGVALUE = IntVal 7, TIMESTAMP = 11\<rparr>,
                    \<lparr>TAGNAME = ''tag-3'', TAGVALUE = IntVal 4, TIMESTAMP = 11\<rparr>,
                    \<lparr>TAGNAME = ''tag-4'', TAGVALUE = IntVal 16, TIMESTAMP = 11\<rparr>,
                    \<lparr>TAGNAME = ''tag-5'', TAGVALUE = IntVal 500, TIMESTAMP = 11\<rparr>],
            start_time = 10,
            cumulative_data = [\<lparr>TAGNAME = ''tag-4'', TAGVALUE = IntVal 16, TIMESTAMP = 11\<rparr>,
                               \<lparr>TAGNAME = ''tag-5'', TAGVALUE = IntVal 500, TIMESTAMP = 11\<rparr>]\<rparr>
           = Inr (Some \<lparr>total_inspected = 500, total_defects = 16, defect_rate = Finite r,
                        batch = ''Batch-1''\<rparr>) \<and>
         \<bar>r - 100 * (16 / 500)\<bar> \<le> 100 * (16 / 500) * 2 powi (- 51) + 2 powi (- 1068))"
proof -
  have lv: "last_value
      [\<lparr>TAGNAME = ''tag-4'', TAGVALUE = IntVal 16, TIMESTAMP = 11\<rparr>,
       \<lparr>TAGNAME = ''tag-5'', TAGVALUE = IntVal 500, TIMESTAMP = 11\<rparr>] ''tag-4'' = Some (IntVal 16)"
    "last_value
      [\<lparr>TAGNAME = ''tag-4'', TAGVALUE = IntVal 16, TIMESTAMP = 11\<rparr>,
       \<lparr>TAGNAME = ''tag-5'', TAGVALUE = IntVal 500, TIMESTAMP = 11\<rparr>] ''tag-5'' = Some (IntVal 500)"
    by (simp_all add: last_value_def rows_with_tag_def)
  have e: "data (initial_state 0) = [] \<or> cumulative_data (initial_state 0) = []"
    by (simp add: initial_state_def)
  from metrics_displayed[of "initial_state 0" default_config] e
  have a: "display_metrics default_config (initial_state 0) = Inr None" by blast
  let ?ex = "\<lparr>streaming = True,
        data = [\<lparr>TAGNAME = ''tag-0'', TAGVALUE = StrVal ''Batch-1'', TIMESTAMP = 10\<rparr>,
                \<lparr>TAGNAME = ''tag-1'', TAGVALUE = IntVal 5, TIMESTAMP = 11\<rparr>,
                \<lparr>TAGNAME = ''tag-2'', TAGVALUE = IntVal 7, TIMESTAMP = 11\<rparr>,
                \<lparr>TAGNAME = ''tag-3'', TAGVALUE = IntVal 4, TIMESTAMP = 11\<rparr>,
                \<lparr>TAGNAME = ''tag-4'', TAGVALUE = IntVal 16, TIMESTAMP = 11\<rparr>,
                \<lparr>TAGNAME = ''tag-5'', TAGVALUE = IntVal 500, TIMESTAMP = 11\<rparr>],
        start_time = 10,
        cumulative_data = [\<lparr>TAGNAME = ''tag-4'', TAGVALUE = IntVal 16, TIMESTAMP = 11\<rparr>,
                           \<lparr>TAGNAME = ''tag-5'', TAGVALUE = IntVal 500, TIMESTAMP = 11\<rparr>]\<rparr>"
  note M = metrics_displayed[of ?ex default_config]
  have ne: "data ?ex \<noteq> []" "cumulative_data ?ex \<noteq> []" by simp_all
  from M example_reachable have b: "display_metrics default_config ?ex \<noteq> Inl ZeroDivisionError"
    by blast
  from M example_reachable ne obtain d i x r where m:
      "last_value (cumulative_data ?ex) ''tag-4'' = Some (IntVal d)"
      "last_value (cumulative_data ?ex) ''tag-5'' = Some (IntVal i)"
      "float_round (of_int d / of_int i) = Finite x"
      "float_round (100 * x) = Finite r"
      "display_metrics default_config ?ex =
         Inr (Some \<lparr>total_inspected = i, total_defects = d, defect_rate = Finite r,
                    batch = batch_name default_config\<rparr>)"
      "\<bar>r - 100 * (of_int d / of_int i)\<bar>
         \<le> 100 * (of_int d / of_int i) * 2 powi (- 51) + 2 powi (- 1068)"
    by blast
  have d: "d = 16" using m(1) lv(1) by simp
  have i: "i = 500" using m(2) lv(2) by simp
  have q: "(of_int d / of_int i :: rat) = 16 / 500" unfolding d i by simp
  note m' = m(3,4,6)[unfolded q] m(5)[unfolded d i batch_name_default_config]
  from a b m' show ?thesis by blast
qed

section \<open>The claim about the start and stop signal\<close>

text \<open>
  C8, as stated, fails: the signal is a toggle, so the second of two consecutive
  signals stops the stream and appends nothing; the log then holds one marker.
\<close>

theorem consecutive_signals_counterexample:
  "data (start_stop_button default_config 20
           (start_stop_button default_config 10 (initial_state 0))) =
     [\<lparr>TAGNAME = ''tag-0'', TAGVALUE = StrVal ''Batch-1'', TIMESTAMP = 10\<rparr>]
   \<and> \<not> streaming (start_stop_button default_config 20
           (start_stop_button default_config 10 (initial_state 0)))"
  by (simp add: start_stop_button_cases initial_state_def batch_marker_def
      batch_name_default_config)

text \<open>
  C8, amended. The start/stop signal is a toggle. Received while the stream is
  stopped it is a start: it records the clock as start time and appends one tag-0
  marker whose value is the batch name and whose timestamp is that start time.
  Received while the stream runs it is a stop and appends nothing, so two starts
  always have a stop between them. After a start, any rows appended while running, a
  stop and a second start, both markers are in the log in that order, and when the
  clock at the second start is not earlier the second timestamp is the same or later.
\<close>

theorem start_stop_toggle:
  "(\<not> streaming s \<longrightarrow>
      start_stop_button cfg1 t1 s =
        s\<lparr>streaming := True, start_time := t1,
          data := data s @ [\<lparr>TAGNAME = ''tag-0'', TAGVALUE = StrVal (batch_name cfg1),
                             TIMESTAMP = t1\<rparr>]\<rparr>)
   \<and> (streaming s2 \<longrightarrow> start_stop_button cfg t s2 = s2\<lparr>streaming := False\<rparr>)
   \<and> (\<not> streaming s \<longrightarrow> streaming s2 \<longrightarrow>
        data s2 = data (start_stop_button cfg1 t1 s) @ mid \<longrightarrow> t1 \<le> t2 \<longrightarrow>
        data (start_stop_button cfg2 t2 (start_stop_button cfg t s2)) =
          data s @ [\<lparr>TAGNAME = ''tag-0'', TAGVALUE = StrVal (batch_name cfg1), TIMESTAMP = t1\<rparr>]
                 @ mid
                 @ [\<lparr>TAGNAME = ''tag-0'', TAGVALUE = StrVal (batch_name cfg2), TIMESTAMP = t2\<rparr>]
        \<and> start_time (start_stop_button cfg2 t2 (start_stop_button cfg t s2)) = t2
        \<and> TIMESTAMP \<lparr>TAGNAME = ''tag-0'', TAGVALUE = StrVal (batch_name cfg1), TIMESTAMP = t1\<rparr>
            \<le> TIMESTAMP \<lparr>TAGNAME = ''tag-0'', TAGVALUE = StrVal (batch_name cfg2), TIMESTAMP = t2\<rparr>)"
  by (simp add: start_stop_button_cases batch_marker_def)

theorem start_stop_toggle_witness:
  "start_stop_button default_config 10 (initial_state 0) =
     \<lparr>streaming = True,
      data = [\<lparr>TAGNAME = ''tag-0'', TAGVALUE = StrVal ''Batch-1'', TIMESTAMP = 10\<rparr>],
      start_time = 10, cumulative_data = []\<rparr>
   \<and> data (start_stop_button default_config 30 (start_stop_button default_config 20
        \<lparr>streaming = True,
         data = [\<lparr>TAGNAME = ''tag-0'', TAGVALUE = StrVal ''Batch-1'', TIMESTAMP = 10\<rparr>,
                 \<lparr>TAGNAME = ''tag-4'', TAGVALUE = IntVal 16, TIMESTAMP = 11\<rparr>,
                 \<lparr>TAGNAME = ''tag-5'', TAGVALUE = IntVal 500, TIMESTAMP = 11\<rparr>],
         start_time = 10,
         cumulative_data = [\<lparr>TAGNAME = ''tag-4'', TAGVALUE = IntVal 16, TIMESTAMP = 11\<rparr>,
                            \<lparr>TAGNAME = ''tag-5'', TAGVALUE = IntVal 500, TIMESTAMP = 11\<rparr>]\<rparr>)) =
      [\<lparr>TAGNAME = ''tag-0'', TAGVALUE = StrVal ''Batch-1'', TIMESTAMP = 10\<rparr>,
       \<lparr>TAGNAME = ''tag-4'', TAGVALUE = IntVal 16, TIMESTAMP = 11\<rparr>,
       \<lparr>TAGNAME = ''tag-5'', TAGVALUE = IntVal 500, TIMESTAMP = 11\<rparr>,
       \<lparr>TAGNAME = ''tag-0'', TAGVALUE = StrVal ''Batch-1'', TIMESTAMP = 30\<rparr>]"
proof -
  let ?s2 = "\<lparr>streaming = True,
         data = [\<lparr>TAGNAME = ''tag-0'', TAGVALUE = StrVal ''Batch-1'', TIMESTAMP = 10\<rparr>,
                 \<lparr>TAGNAME = ''tag-4'', TAGVALUE = IntVal 16, TIMESTAMP = 11\<rparr>,
                 \<lparr>TAGNAME = ''tag-5'', TAGVALUE = IntVal 500, TIMESTAMP = 11\<rparr>],
         start_time = 10,
         cumulative_data = [\<lparr>TAGNAME = ''tag-4'', TAGVALUE = IntVal 16, TIMESTAMP = 11\<rparr>,
                            \<lparr>TAGNAME = ''tag-5'', TAGVALUE = IntVal 500, TIMESTAMP = 11\<rparr>]\<rparr>"
  let ?mid = "[\<lparr>TAGNAME = ''tag-4'', TAGVALUE = IntVal 16, TIMESTAMP = 11\<rparr>,
               \<lparr>TAGNAME = ''tag-5'', TAGVALUE = IntVal 500, TIMESTAMP = 11\<rparr>]"
  note T = start_stop_toggle[of "initial_state 0" default_config 10 ?s2 default_config 20 ?mid
      30 default_config]
  have stopped: "\<not> streaming (initial_state 0)" by (simp add: initial_state_def)
  have running: "streaming ?s2" by simp
  from T stopped have first: "start_stop_button default_config 10 (initial_state 0) =
      (initial_state 0)\<lparr>streaming := True, start_time := 10,
          data := data (initial_state 0) @ [\<lparr>TAGNAME = ''tag-0'',
             TAGVALUE = StrVal (batch_name default_config), TIMESTAMP = 10\<rparr>]\<rparr>"
    by blast
  have d: "data ?s2 = data (start_stop_button default_config 10 (initial_state 0)) @ ?mid"
    unfolding first by (simp add: initial_state_def batch_name_default_config)
  have le: "(10::int) \<le> 30" by simp
  from T stopped running d le
  have "data (start_stop_button default_config 30 (start_stop_button default_config 20 ?s2)) =
          data (initial_state 0) @ [\<lparr>TAGNAME = ''tag-0'',
             TAGVALUE = StrVal (batch_name default_config), TIMESTAMP = 10\<rparr>]
                 @ ?mid
                 @ [\<lparr>TAGNAME = ''tag-0'', TAGVALUE = StrVal (batch_name default_config),
                      TIMESTAMP = 30\<rparr>]"
    by blast
  with first show ?thesis
    by (simp add: initial_state_def batch_name_default_config)
qed

end
